theory Spec2Isabelle
  imports Main "HOL-Library.AList"
begin

section \<open>JavaScript values used by the components\<close>

text \<open>
  A JavaScript string is modelled as a \<open>string\<close>: one \<open>char\<close> stands for one code unit
  (the code units used below are all in the range 0..255; the non-breaking space
  U+00A0 is the single character \<open>CHR 0xA0\<close>). A property that may be \<open>undefined\<close> is an
  \<open>option\<close>, with \<open>None\<close> for \<open>undefined\<close>.
\<close>

datatype jsval = Str string | Num int | Bool bool | Undefined

text \<open>Truthiness of a JavaScript value: \<open>undefined\<close>, \<open>false\<close>, \<open>0\<close> and \<open>''\<close> are falsy.\<close>

fun js_truthy :: "jsval \<Rightarrow> bool" where
  "js_truthy (Str s) = (s \<noteq> [])"
| "js_truthy (Num n) = (n \<noteq> 0)"
| "js_truthy (Bool b) = b"
| "js_truthy Undefined = False"

text \<open>The nullish coalescing operator \<open>a ?? b\<close>: \<open>b\<close> only when \<open>a\<close> is \<open>undefined\<close>.\<close>

fun nullish :: "jsval \<Rightarrow> jsval \<Rightarrow> jsval" where
  "nullish Undefined b = b"
| "nullish a b = a"

definition of_str :: "string option \<Rightarrow> jsval" where
  "of_str x = (case x of None \<Rightarrow> Undefined | Some s \<Rightarrow> Str s)"

definition of_bool :: "bool option \<Rightarrow> jsval" where
  "of_bool x = (case x of None \<Rightarrow> Undefined | Some b \<Rightarrow> Bool b)"

definition of_num :: "int option \<Rightarrow> jsval" where
  "of_num x = (case x of None \<Rightarrow> Undefined | Some n \<Rightarrow> Num n)"

text \<open>Truthiness of an optional string (\<open>!!item.searchQuery\<close> and the like).\<close>

definition truthy :: "string option \<Rightarrow> bool" where
  "truthy x = js_truthy (of_str x)"

text \<open>
  \<open>String.prototype.trim\<close>: white space and line terminators are removed from both ends.
  Of the code units that ECMAScript counts as white space, those below 256 are
  TAB, LF, VT, FF, CR, SPACE and NBSP.
\<close>

definition js_whitespace :: "char \<Rightarrow> bool" where
  "js_whitespace c = (c \<in> {CHR 0x09, CHR 0x0A, CHR 0x0B, CHR 0x0C, CHR 0x0D, CHR 0x20, CHR 0xA0})"

definition js_trim :: "string \<Rightarrow> string" where
  "js_trim s = rev (dropWhile js_whitespace (rev (dropWhile js_whitespace s)))"

section \<open>WebGenericPressable (components/Pressable/GenericPressable/index.tsx)\<close>

text \<open>
  The props that decide the forwarded \<open>focusable\<close> and \<open>tabIndex\<close>. \<open>focusable\<close> is
  destructured with the default \<open>true\<close>; \<open>accessible\<close> and \<open>tabIndex\<close> are read from the
  rest of the props.
\<close>

record pressable_props =
  focusable :: "bool option"
  accessible :: "bool option"
  tabIndex :: "int option"

text \<open>\<open>{focusable = true, ...props}\<close>: the default applies when the prop is \<open>undefined\<close>.\<close>

definition focusable_value :: "pressable_props \<Rightarrow> bool" where
  "focusable_value props = (case focusable props of None \<Rightarrow> True | Some b \<Rightarrow> b)"

text \<open>
  \<open>const accessible = props.accessible ?? props.accessible === undefined ? true : props.accessible\<close>.
  \<open>??\<close> binds tighter than \<open>?:\<close>, so the condition of the conditional is
  \<open>props.accessible ?? (props.accessible === undefined)\<close>.
\<close>

definition accessible_value :: "pressable_props \<Rightarrow> jsval" where
  "accessible_value props =
     (if js_truthy (nullish (of_bool (accessible props)) (Bool (accessible props = None)))
      then Bool True
      else of_bool (accessible props))"

text \<open>
  \<open>tabIndex={props.tabIndex ?? (!accessible || !focusable) ? -1 : 0}\<close>, which parses as
  \<open>(props.tabIndex ?? (!accessible || !focusable)) ? -1 : 0\<close>.
\<close>

definition tabIndex_condition :: "pressable_props \<Rightarrow> jsval" where
  "tabIndex_condition props =
     nullish (of_num (tabIndex props))
       (Bool (\<not> js_truthy (accessible_value props) \<or> \<not> focusable_value props))"

definition WebGenericPressable_tabIndex :: "pressable_props \<Rightarrow> int" where
  "WebGenericPressable_tabIndex props = (if js_truthy (tabIndex_condition props) then - 1 else 0)"

section \<open>ReportFieldsEditValuePage: editValue\<close>







section \<open>SearchRouter: data\<close>

text \<open>
  The router is the third component in the same file (lines 176 to 667).
\<close>

text \<open>
  An exception is represented by its message, the value of \<open>String(error)\<close>.
\<close>

type_synonym exn = string

text \<open>
  \<open>SubstitutionMap\<close> is a JavaScript object from keys to identifiers. It is an association
  list in insertion order; \<open>{...m, [k]: v}\<close> is \<open>AList.update k v m\<close> (an existing key keeps
  its place, a new key goes last), and \<open>deepEqual\<close> of fast-equals compares two objects
  by their keys and values.
\<close>

type_synonym substitution_map = "(string \<times> string) list"

definition deepEqual :: "substitution_map \<Rightarrow> substitution_map \<Rightarrow> bool" where
  "deepEqual a b =
     (list_all (\<lambda>k. map_of a k = map_of b k) (map fst a) \<and>
      list_all (\<lambda>k. map_of a k = map_of b k) (map fst b))"

record selection_range =
  sel_start :: nat
  sel_end :: nat

datatype route = SEARCH_ROOT string | REPORT_WITH_ID string

text \<open>
  The calls the router makes to its collaborators, in the order they are made.
  \<open>BackHistory cb\<close> is the call \<open>backHistory(callback)\<close>, with the calls that the callback
  makes when it is run; \<open>RunAfterInteractions actionId\<close> is the deferred focus and
  scroll-to-right task of \<open>setFocusAndScrollToRight\<close>.
\<close>

datatype effect =
    LogInfo string "(string \<times> jsval) list"
  | LogAlert string "(string \<times> jsval) list"
  | UpdateAndScrollToFocusedIndex int
  | BackHistory "effect list"
  | OnRouterClose
  | NavigationNavigate route
  | NavigateToAndOpenReport "string list" bool
  | RunAfterInteractions string

text \<open>
  The state of one SearchRouter instance: the four pieces of React state, the
  \<open>shouldScrollRef\<close> flag, whether \<open>listRef.current\<close> is set, and the bookkeeping of the
  model: the calls made so far, how often \<open>setAutocompleteSubstitutions\<close> was called, and
  how often \<open>Date.now()\<close> and \<open>Math.random()\<close> were read.
\<close>

record router_state =
  textInputValue :: string
  autocompleteQueryValue :: string
  selection :: selection_range
  autocompleteSubstitutions :: substitution_map
  shouldScrollRef :: bool
  listRefCurrent :: bool
  substitutionsSetCalls :: nat
  effects :: "effect list"
  dateNowCalls :: nat
  mathRandomCalls :: nat

text \<open>
  The values of \<open>CONST.SEARCH\<close> that the router reads. \<open>CONST\<close> is not among the sources, so
  the values are parameters.
\<close>

record search_const =
  DATA_TYPES_EXPENSE :: string
  DATA_TYPES_INVOICE :: string
  DATA_TYPES_CHAT :: string
  SYNTAX_FILTER_KEYS_TO :: string
  SYNTAX_FILTER_KEYS_IN :: string
  SEARCH_USER_FRIENDLY_KEYS_TYPE :: string
  SEARCH_USER_FRIENDLY_KEYS_POLICY_ID :: string
  SEARCH_USER_FRIENDLY_KEYS_TO :: string
  SEARCH_USER_FRIENDLY_KEYS_IN :: string
  ITEM_TYPE_CONTEXTUAL_SUGGESTION :: string
  ITEM_TYPE_AUTOCOMPLETE_SUGGESTION :: string

text \<open>
  The imported helpers, which are not among the sources either, are parameters as well.
  Each of them may throw (\<open>Inl\<close>). \<open>runAfterInteractions\<close> says whether the call
  \<open>InteractionManager.runAfterInteractions(...)\<close> throws; \<open>dateNow n\<close> and \<open>mathRandom n\<close>
  are the results of the \<open>n\<close>-th read of \<open>Date.now()\<close> and of
  \<open>Math.random().toString(36).substring(2, 9)\<close>.
\<close>

record env =
  CONST_SEARCH :: search_const
  lineBreaksToSpaces :: "string \<Rightarrow> bool \<Rightarrow> exn + string"
  getAutocompleteQueryWithComma :: "string \<Rightarrow> string \<Rightarrow> exn + string"
  getUpdatedSubstitutionsMap :: "string \<Rightarrow> substitution_map \<Rightarrow> exn + substitution_map"
  getQueryWithSubstitutions :: "string \<Rightarrow> substitution_map \<Rightarrow> exn + string"
  getQueryWithUpdatedValues :: "string \<Rightarrow> exn + string option"
  getQueryWithoutAutocompletedPart :: "string \<Rightarrow> exn + string"
  sanitizeSearchValue :: "string \<Rightarrow> exn + string"
  runAfterInteractions :: "exn option"
  dateNow :: "nat \<Rightarrow> nat"
  mathRandom :: "nat \<Rightarrow> string"

text \<open>The items of the suggestion list: \<open>OptionData | SearchQueryItem\<close>.\<close>

record search_query_item =
  searchQuery :: "string option"
  searchItemType :: string
  roomType :: "string option"
  autocompleteID :: "string option"
  mapKey :: "string option"
  policyID :: "string option"

text \<open>
  Of an \<open>OptionData\<close> only \<open>reportID\<close> and \<open>login\<close> are read. The outer \<open>option\<close> says
  whether the object has the property at all (\<open>'login' in item\<close>).
\<close>

record option_data =
  reportID :: "string option option"
  login :: "string option option"

datatype list_item = SearchQueryItem search_query_item | OptionData option_data

section \<open>SearchRouter: small helpers\<close>

definition nbsp :: char where
  "nbsp = CHR 0xA0"

text \<open>A template literal \<open>`${x}`\<close> prints \<open>undefined\<close> as the word.\<close>

definition template :: "string option \<Rightarrow> string" where
  "template x = (case x of None \<Rightarrow> ''undefined'' | Some s \<Rightarrow> s)"

text \<open>\<open>x ?? ''\<close>\<close>

definition or_empty :: "string option \<Rightarrow> string" where
  "or_empty x = (case x of None \<Rightarrow> [] | Some s \<Rightarrow> s)"

definition prop_value :: "'a option option \<Rightarrow> 'a option" where
  "prop_value p = (case p of None \<Rightarrow> None | Some v \<Rightarrow> v)"

text \<open>A non-negative integer printed in decimal, as \<open>`${Date.now()}`\<close> does.\<close>

definition digit_char :: "nat \<Rightarrow> char" where
  "digit_char d = ''0123456789'' ! d"

fun digits :: "nat \<Rightarrow> nat \<Rightarrow> string" where
  "digits 0 n = []"
| "digits (Suc fuel) n =
     (if n < 10 then [digit_char n] else digits fuel (n div 10) @ [digit_char (n mod 10)])"

definition show_nat :: "nat \<Rightarrow> string" where
  "show_nat n = digits (Suc n) n"

definition emit :: "effect \<Rightarrow> router_state \<Rightarrow> router_state" where
  "emit e st = st\<lparr>effects := effects st @ [e]\<rparr>"

definition date_now :: "env \<Rightarrow> router_state \<Rightarrow> nat \<times> router_state" where
  "date_now env st = (dateNow env (dateNowCalls st), st\<lparr>dateNowCalls := Suc (dateNowCalls st)\<rparr>)"

definition math_random :: "env \<Rightarrow> router_state \<Rightarrow> string \<times> router_state" where
  "math_random env st =
     (mathRandom env (mathRandomCalls st), st\<lparr>mathRandomCalls := Suc (mathRandomCalls st)\<rparr>)"

text \<open>
  \<open>`<prefix>_${Date.now()}_${Math.random().toString(36).substring(2, 9)}`\<close>
\<close>

definition new_actionId :: "string \<Rightarrow> env \<Rightarrow> router_state \<Rightarrow> string \<times> router_state" where
  "new_actionId pre env st =
     (let (t, st1) = date_now env st;
          (r, st2) = math_random env st1
      in (pre @ show_nat t @ ''_'' @ r, st2))"

definition duration :: "nat \<Rightarrow> nat \<Rightarrow> jsval" where
  "duration endTime startTime = Num (int endTime - int startTime)"

text \<open>The state setters of React. The setter of the substitutions counts its calls.\<close>

definition setTextInputValue :: "string \<Rightarrow> router_state \<Rightarrow> router_state" where
  "setTextInputValue t st = st\<lparr>textInputValue := t\<rparr>"

definition setAutocompleteQueryValue :: "string \<Rightarrow> router_state \<Rightarrow> router_state" where
  "setAutocompleteQueryValue t st = st\<lparr>autocompleteQueryValue := t\<rparr>"

definition setSelection :: "selection_range \<Rightarrow> router_state \<Rightarrow> router_state" where
  "setSelection r st = st\<lparr>selection := r\<rparr>"

definition setAutocompleteSubstitutions :: "substitution_map \<Rightarrow> router_state \<Rightarrow> router_state" where
  "setAutocompleteSubstitutions m st =
     st\<lparr>autocompleteSubstitutions := m, substitutionsSetCalls := Suc (substitutionsSetCalls st)\<rparr>"

text \<open>\<open>listRef.current?.updateAndScrollToFocusedIndex(i)\<close>\<close>

definition updateAndScrollToFocusedIndex :: "int \<Rightarrow> router_state \<Rightarrow> router_state" where
  "updateAndScrollToFocusedIndex i st =
     (if listRefCurrent st then emit (UpdateAndScrollToFocusedIndex i) st else st)"

text \<open>The state after mount: \<open>useDebouncedState('', 500)\<close>, \<open>useState({})\<close> and so on.\<close>

definition initial_state :: router_state where
  "initial_state =
     \<lparr>textInputValue = [], autocompleteQueryValue = [],
      selection = \<lparr>sel_start = 0, sel_end = 0\<rparr>,
      autocompleteSubstitutions = [], shouldScrollRef = False, listRefCurrent = True,
      substitutionsSetCalls = 0, effects = [], dateNowCalls = 0, mathRandomCalls = 0\<rparr>"

section \<open>SearchRouter: operations\<close>

text \<open>
  A callback made by \<open>useCallback\<close> reads the state of the render that created it and
  writes through the setters. So each callback takes two states: \<open>cl\<close>, the values its
  closure captured, and \<open>st\<close>, the pending state its setter calls act on. It returns the
  exception it throws, if any, and the pending state it leaves; what was set before a
  throw stays set. \<open>dispatch\<close> runs a callback of the current render on one event. React
  applies the writes of an event before the next event is handled, so the callback of
  the next event is dispatched on the state that this one leaves.
\<close>

type_synonym callback = "router_state \<Rightarrow> router_state \<Rightarrow> exn option \<times> router_state"

definition dispatch :: "callback \<Rightarrow> router_state \<Rightarrow> exn option \<times> router_state" where
  "dispatch h st = h st st"

subsection \<open>getContextualSearchAutocompleteKey and getContextualSearchQuery\<close>

definition getContextualSearchAutocompleteKey :: "env \<Rightarrow> search_query_item \<Rightarrow> string option" where
  "getContextualSearchAutocompleteKey env item =
     (if roomType item = Some (DATA_TYPES_INVOICE (CONST_SEARCH env))
      then Some (SYNTAX_FILTER_KEYS_TO (CONST_SEARCH env) @ '':'' @ template (searchQuery item))
      else if roomType item = Some (DATA_TYPES_CHAT (CONST_SEARCH env))
      then Some (SYNTAX_FILTER_KEYS_IN (CONST_SEARCH env) @ '':'' @ template (searchQuery item))
      else None)"

definition getContextualSearchQuery :: "env \<Rightarrow> search_query_item \<Rightarrow> exn + string" where
  "getContextualSearchQuery env item =
     (let c = CONST_SEARCH env;
          baseQuery = SEARCH_USER_FRIENDLY_KEYS_TYPE c @ '':'' @ template (roomType item)
      in if roomType item = Some (DATA_TYPES_EXPENSE c) \<or> roomType item = Some (DATA_TYPES_INVOICE c)
         then
           (let additionalQuery =
                  '' '' @ SEARCH_USER_FRIENDLY_KEYS_POLICY_ID c @ '':'' @ template (policyID item)
            in if roomType item = Some (DATA_TYPES_INVOICE c) \<and> truthy (autocompleteID item)
               then (case sanitizeSearchValue env (or_empty (searchQuery item)) of
                       Inl e \<Rightarrow> Inl e
                     | Inr v \<Rightarrow>
                         Inr (baseQuery @ additionalQuery @ '' '' @ SEARCH_USER_FRIENDLY_KEYS_TO c
                                @ '':'' @ v))
               else Inr (baseQuery @ additionalQuery))
         else
           (case sanitizeSearchValue env (or_empty (searchQuery item)) of
              Inl e \<Rightarrow> Inl e
            | Inr v \<Rightarrow> Inr (baseQuery @ '' '' @ SEARCH_USER_FRIENDLY_KEYS_IN c @ '':'' @ v)))"

subsection \<open>onSearchQueryChange\<close>

text \<open>The body of the \<open>try\<close> block.\<close>

definition onSearchQueryChange_try ::
  "env \<Rightarrow> router_state \<Rightarrow> string \<Rightarrow> nat \<Rightarrow> string \<Rightarrow> bool \<Rightarrow> router_state
     \<Rightarrow> exn option \<times> router_state" where
  "onSearchQueryChange_try env cl actionId startTime userQuery autoScrollToRight st =
     (let st1 = (if autoScrollToRight then st\<lparr>shouldScrollRef := True\<rparr> else st) in
      case lineBreaksToSpaces env userQuery True of
        Inl e \<Rightarrow> (Some e, st1)
      | Inr singleLineUserQuery \<Rightarrow>
      (case getAutocompleteQueryWithComma env (textInputValue cl) singleLineUserQuery of
        Inl e \<Rightarrow> (Some e, st1)
      | Inr updatedUserQuery \<Rightarrow>
      (let st2 = setAutocompleteQueryValue updatedUserQuery (setTextInputValue updatedUserQuery st1) in
       case getUpdatedSubstitutionsMap env singleLineUserQuery (autocompleteSubstitutions cl) of
        Inl e \<Rightarrow> (Some e, st2)
      | Inr updatedSubstitutionsMap \<Rightarrow>
      (let changed = \<not> deepEqual (autocompleteSubstitutions cl) updatedSubstitutionsMap;
           st3 = (if changed then setAutocompleteSubstitutions updatedSubstitutionsMap st2 else st2);
           st4 = (if updatedUserQuery \<noteq> [] \<or> length (textInputValue cl) > 0
                  then updateAndScrollToFocusedIndex 0 st3
                  else updateAndScrollToFocusedIndex (- 1) st3);
           (endTime, st5) = date_now env st4
       in (None,
           emit (LogInfo ''[CMD_K_DEBUG] Search query change completed''
                  [(''actionId'', Str actionId),
                   (''duration'', duration endTime startTime),
                   (''finalInputLength'', Num (int (length updatedUserQuery))),
                   (''substitutionsUpdated'', Bool changed),
                   (''timestamp'', Num (int endTime))]) st5)))))"

definition onSearchQueryChange ::
  "env \<Rightarrow> router_state \<Rightarrow> string \<Rightarrow> bool \<Rightarrow> router_state \<Rightarrow> exn option \<times> router_state" where
  "onSearchQueryChange env cl userQuery autoScrollToRight st =
     (let (actionId, st1) = new_actionId ''search_query_'' env st;
          (startTime, st2) = date_now env st1;
          st3 = emit (LogInfo ''[CMD_K_DEBUG] Search query change started''
                       [(''actionId'', Str actionId),
                        (''inputLength'', Num (int (length userQuery))),
                        (''previousInputLength'', Num (int (length (textInputValue cl)))),
                        (''autoScrollToRight'', Bool autoScrollToRight),
                        (''timestamp'', Num (int startTime))]) st2
      in case onSearchQueryChange_try env cl actionId startTime userQuery autoScrollToRight st3 of
           (None, st4) \<Rightarrow> (None, st4)
         | (Some error, st4) \<Rightarrow>
             (let (endTime, st5) = date_now env st4
              in (Some error,
                  emit (LogAlert ''[CMD_K_FREEZE] Search query change failed''
                         [(''actionId'', Str actionId),
                          (''error'', Str error),
                          (''duration'', duration endTime startTime),
                          (''inputLength'', Num (int (length userQuery))),
                          (''timestamp'', Num (int endTime))]) st5)))"

subsection \<open>submitSearch, setTextAndUpdateSelection, updateAutocompleteSubstitutions\<close>

definition submitSearch ::
  "env \<Rightarrow> router_state \<Rightarrow> string \<Rightarrow> router_state \<Rightarrow> exn option \<times> router_state" where
  "submitSearch env cl queryString st =
     (case getQueryWithSubstitutions env queryString (autocompleteSubstitutions cl) of
        Inl e \<Rightarrow> (Some e, st)
      | Inr queryWithSubstitutions \<Rightarrow>
      (case getQueryWithUpdatedValues env queryWithSubstitutions of
        Inl e \<Rightarrow> (Some e, st)
      | Inr None \<Rightarrow> (None, st)
      | Inr (Some updatedQuery) \<Rightarrow>
          if updatedQuery = [] then (None, st)
          else (None,
                setAutocompleteQueryValue []
                  (setTextInputValue []
                    (emit (BackHistory [OnRouterClose, NavigationNavigate (SEARCH_ROOT updatedQuery)])
                       st)))))"

definition setTextAndUpdateSelection :: "string \<Rightarrow> router_state \<Rightarrow> router_state" where
  "setTextAndUpdateSelection text st =
     setSelection \<lparr>sel_start = length text, sel_end = length text\<rparr>
       ((setTextInputValue text st)\<lparr>shouldScrollRef := True\<rparr>)"

definition updateAutocompleteSubstitutions ::
  "router_state \<Rightarrow> search_query_item \<Rightarrow> router_state \<Rightarrow> router_state" where
  "updateAutocompleteSubstitutions cl item st =
     (case (autocompleteID item, mapKey item) of
        (Some a, Some k) \<Rightarrow>
          if a = [] \<or> k = [] then st
          else setAutocompleteSubstitutions (AList.update k a (autocompleteSubstitutions cl)) st
      | _ \<Rightarrow> st)"

subsection \<open>onListItemPress\<close>

text \<open>
  \<open>setFocusAndScrollToRight\<close>: what \<open>runAfterInteractions\<close> throws is logged and not
  thrown again.
\<close>

definition setFocusAndScrollToRight ::
  "env \<Rightarrow> string \<Rightarrow> router_state \<Rightarrow> exn option \<times> router_state" where
  "setFocusAndScrollToRight env actionId st =
     (case runAfterInteractions env of
        None \<Rightarrow> (None, emit (RunAfterInteractions actionId) st)
      | Some error \<Rightarrow>
          (let (now, st1) = date_now env st
           in (None,
               emit (LogAlert ''[CMD_K_FREEZE] Focus and scroll failed''
                      [(''actionId'', Str actionId),
                       (''error'', Str error),
                       (''timestamp'', Num (int now))]) st1)))"

text \<open>
  The substitution that a pressed suggestion adds:
  \<open>if (key && item.autocompleteID) setAutocompleteSubstitutions({...autocompleteSubstitutions, [key]: item.autocompleteID})\<close>.
\<close>

definition merge_substitution ::
  "router_state \<Rightarrow> string option \<Rightarrow> string option \<Rightarrow> router_state \<Rightarrow> router_state" where
  "merge_substitution cl key ident st =
     (case (key, ident) of
        (Some k, Some a) \<Rightarrow>
          if k = [] \<or> a = [] then st
          else setAutocompleteSubstitutions (AList.update k a (autocompleteSubstitutions cl)) st
      | _ \<Rightarrow> st)"

text \<open>
  The statements that the contextual and the autocomplete branch have in common, from the
  call of \<open>onSearchQueryChange(newSearchQuery, true)\<close> to the closing log entry (\<open>handled\<close>,
  which differs between the two).
\<close>

definition accept_suggestion ::
  "env \<Rightarrow> router_state \<Rightarrow> string \<Rightarrow> nat \<Rightarrow> string \<Rightarrow> string option \<Rightarrow> string option
     \<Rightarrow> (nat \<Rightarrow> effect) \<Rightarrow> router_state \<Rightarrow> exn option \<times> router_state" where
  "accept_suggestion env cl actionId startTime newSearchQuery key ident handled st =
     (case onSearchQueryChange env cl newSearchQuery True st of
        (Some e, st1) \<Rightarrow> (Some e, st1)
      | (None, st1) \<Rightarrow>
          (let st2 = setSelection \<lparr>sel_start = length newSearchQuery, sel_end = length newSearchQuery\<rparr> st1;
               st3 = merge_substitution cl key ident st2;
               (_, st4) = setFocusAndScrollToRight env actionId st3;
               (endTime, st5) = date_now env st4
           in (None, emit (handled endTime) st5)))"

definition onListItemPress_try ::
  "env \<Rightarrow> router_state \<Rightarrow> string \<Rightarrow> nat \<Rightarrow> list_item \<Rightarrow> router_state
     \<Rightarrow> exn option \<times> router_state" where
  "onListItemPress_try env cl actionId startTime item st =
     (case item of
        SearchQueryItem i \<Rightarrow>
          (case searchQuery i of
             None \<Rightarrow>
               (let (now, st1) = date_now env st
                in (None,
                    emit (LogInfo ''[CMD_K_DEBUG] List item press skipped - no search query''
                           [(''actionId'', Str actionId), (''itemType'', Str ''SearchQueryItem''),
                            (''timestamp'', Num (int now))]) st1))
           | Some q \<Rightarrow>
               if q = [] then
                 (let (now, st1) = date_now env st
                  in (None,
                      emit (LogInfo ''[CMD_K_DEBUG] List item press skipped - no search query''
                             [(''actionId'', Str actionId), (''itemType'', Str ''SearchQueryItem''),
                              (''timestamp'', Num (int now))]) st1))
               else if searchItemType i = ITEM_TYPE_CONTEXTUAL_SUGGESTION (CONST_SEARCH env) then
                 (case getContextualSearchQuery env i of
                    Inl e \<Rightarrow> (Some e, st)
                  | Inr contextual \<Rightarrow>
                      (let newSearchQuery = contextual @ [nbsp];
                           autocompleteKey = getContextualSearchAutocompleteKey env i
                       in accept_suggestion env cl actionId startTime newSearchQuery
                            autocompleteKey (autocompleteID i)
                            (\<lambda>endTime. LogInfo ''[CMD_K_DEBUG] Contextual suggestion handled''
                               [(''actionId'', Str actionId),
                                (''duration'', duration endTime startTime),
                                (''newQueryLength'', Num (int (length newSearchQuery))),
                                (''hasSubstitutions'',
                                   Bool (truthy autocompleteKey \<and> truthy (autocompleteID i))),
                                (''timestamp'', Num (int endTime))])
                            st))
               else if searchItemType i = ITEM_TYPE_AUTOCOMPLETE_SUGGESTION (CONST_SEARCH env)
                       \<and> textInputValue cl \<noteq> [] then
                 (case getQueryWithoutAutocompletedPart env (textInputValue cl) of
                    Inl e \<Rightarrow> (Some e, st)
                  | Inr trimmedUserSearchQuery \<Rightarrow>
                 (case sanitizeSearchValue env q of
                    Inl e \<Rightarrow> (Some e, st)
                  | Inr sanitized \<Rightarrow>
                      (let newSearchQuery = trimmedUserSearchQuery @ sanitized @ [nbsp]
                       in accept_suggestion env cl actionId startTime newSearchQuery
                            (mapKey i) (autocompleteID i)
                            (\<lambda>endTime. LogInfo ''[CMD_K_DEBUG] Autocomplete suggestion handled''
                               [(''actionId'', Str actionId),
                                (''duration'', duration endTime startTime),
                                (''trimmedQueryLength'', Num (int (length trimmedUserSearchQuery))),
                                (''newQueryLength'', Num (int (length newSearchQuery))),
                                (''hasMapKey'', Bool (truthy (mapKey i) \<and> truthy (autocompleteID i))),
                                (''timestamp'', Num (int endTime))])
                            st)))
               else
                 (case submitSearch env cl q st of
                    (Some e, st1) \<Rightarrow> (Some e, st1)
                  | (None, st1) \<Rightarrow>
                      (let (endTime, st2) = date_now env st1
                       in (None,
                           emit (LogInfo ''[CMD_K_DEBUG] Search submitted''
                                  [(''actionId'', Str actionId),
                                   (''duration'', duration endTime startTime),
                                   (''searchQuery'', Str q),
                                   (''timestamp'', Num (int endTime))]) st2))))
      | OptionData d \<Rightarrow>
          (let callback =
                 (if truthy (prop_value (reportID d))
                  then [NavigationNavigate (REPORT_WITH_ID (or_empty (prop_value (reportID d))))]
                  else (case login d of
                          None \<Rightarrow> []
                        | Some l \<Rightarrow>
                            [NavigateToAndOpenReport (if truthy l then [or_empty l] else []) False]));
               st1 = emit OnRouterClose (emit (BackHistory callback) st);
               (endTime, st2) = date_now env st1
           in (None,
               emit (LogInfo ''[CMD_K_DEBUG] Navigation item handled''
                      [(''actionId'', Str actionId),
                       (''duration'', duration endTime startTime),
                       (''reportID'', of_str (prop_value (reportID d))),
                       (''hasLogin'', (case login d of None \<Rightarrow> Bool False | Some l \<Rightarrow> Bool (truthy l))),
                       (''timestamp'', Num (int endTime))]) st2)))"

text \<open>The fields of the two log entries that describe the pressed item.\<close>

definition itemType_field :: "list_item \<Rightarrow> jsval" where
  "itemType_field item =
     (case item of SearchQueryItem i \<Rightarrow> Str ''SearchQueryItem'' | OptionData d \<Rightarrow> Str ''OptionData'')"

definition searchItemType_field :: "list_item \<Rightarrow> jsval" where
  "searchItemType_field item =
     (case item of SearchQueryItem i \<Rightarrow> Str (searchItemType i) | OptionData d \<Rightarrow> Undefined)"

definition onListItemPress ::
  "env \<Rightarrow> router_state \<Rightarrow> list_item \<Rightarrow> router_state \<Rightarrow> exn option \<times> router_state" where
  "onListItemPress env cl item st =
     (let (actionId, st1) = new_actionId ''list_item_press_'' env st;
          (startTime, st2) = date_now env st1;
          st3 = emit (LogInfo ''[CMD_K_DEBUG] List item press started''
                       [(''actionId'', Str actionId),
                        (''itemType'', itemType_field item),
                        (''searchItemType'', searchItemType_field item),
                        (''hasSearchQuery'',
                           (case item of SearchQueryItem i \<Rightarrow> Bool (truthy (searchQuery i))
                            | OptionData d \<Rightarrow> Undefined)),
                        (''hasReportID'',
                           (case item of SearchQueryItem i \<Rightarrow> Undefined
                            | OptionData d \<Rightarrow>
                                (case reportID d of None \<Rightarrow> Undefined | Some r \<Rightarrow> Bool (truthy r)))),
                        (''hasLogin'',
                           (case item of SearchQueryItem i \<Rightarrow> Undefined
                            | OptionData d \<Rightarrow>
                                (case login d of None \<Rightarrow> Undefined | Some l \<Rightarrow> Bool (truthy l)))),
                        (''timestamp'', Num (int startTime))]) st2
      in case onListItemPress_try env cl actionId startTime item st3 of
           (None, st4) \<Rightarrow> (None, st4)
         | (Some error, st4) \<Rightarrow>
             (let (endTime, st5) = date_now env st4
              in (Some error,
                  emit (LogAlert ''[CMD_K_FREEZE] List item press failed''
                         [(''actionId'', Str actionId),
                          (''error'', Str error),
                          (''duration'', duration endTime startTime),
                          (''itemType'', itemType_field item),
                          (''searchItemType'', searchItemType_field item),
                          (''timestamp'', Num (int endTime))]) st5)))"

subsection \<open>onSubmit of the text input\<close>

text \<open>
  \<open>focusedOption\<close> is the result of \<open>listRef.current?.getFocusedOption()\<close>, which the list
  decides.
\<close>

definition onSubmit ::
  "env \<Rightarrow> list_item option \<Rightarrow> router_state \<Rightarrow> router_state \<Rightarrow> exn option \<times> router_state" where
  "onSubmit env focusedOption cl st =
     (case focusedOption of
        None \<Rightarrow> submitSearch env cl (textInputValue cl) st
      | Some item \<Rightarrow> onListItemPress env cl item st)"

subsection \<open>Reading the calls\<close>

text \<open>
  The routes that a call hands to \<open>Navigation.navigate\<close>, those inside the callback of a
  \<open>backHistory\<close> included.
\<close>

fun navigations :: "effect \<Rightarrow> route list" where
  "navigations (BackHistory cb) = concat (map navigations cb)"
| "navigations (NavigationNavigate r) = [r]"
| "navigations (LogInfo m fs) = []"
| "navigations (LogAlert m fs) = []"
| "navigations (UpdateAndScrollToFocusedIndex i) = []"
| "navigations OnRouterClose = []"
| "navigations (NavigateToAndOpenReport ls b) = []"
| "navigations (RunAfterInteractions a) = []"

definition navigation_events :: "router_state \<Rightarrow> route list" where
  "navigation_events st = concat (map navigations (effects st))"

text \<open>The invariant that the spec states for the selection.\<close>

definition selection_in_bounds :: "router_state \<Rightarrow> bool" where
  "selection_in_bounds st =
     (sel_start (selection st) \<le> sel_end (selection st)
      \<and> sel_end (selection st) \<le> length (textInputValue st))"

section \<open>The collaborators as the spec describes them\<close>

text \<open>
  Modelled from the spec: \<open>CONST.SEARCH\<close> is not among the sources. The spec's scenarios
  A and B spell the keys \<open>type\<close> and \<open>in\<close> and the data type \<open>chat\<close>; the other values are
  named after their constants.
\<close>

definition spec_search_const :: search_const where
  "spec_search_const =
     \<lparr>DATA_TYPES_EXPENSE = ''expense'', DATA_TYPES_INVOICE = ''invoice'', DATA_TYPES_CHAT = ''chat'',
      SYNTAX_FILTER_KEYS_TO = ''to'', SYNTAX_FILTER_KEYS_IN = ''in'',
      SEARCH_USER_FRIENDLY_KEYS_TYPE = ''type'', SEARCH_USER_FRIENDLY_KEYS_POLICY_ID = ''policyID'',
      SEARCH_USER_FRIENDLY_KEYS_TO = ''to'', SEARCH_USER_FRIENDLY_KEYS_IN = ''in'',
      ITEM_TYPE_CONTEXTUAL_SUGGESTION = ''contextualSuggestion'',
      ITEM_TYPE_AUTOCOMPLETE_SUGGESTION = ''autocompleteSuggestion''\<rparr>"

text \<open>
  Modelled from the spec: \<open>StringUtils.lineBreaksToSpaces\<close> is not among the sources. The
  spec (4.1) has the line-break characters of the incoming text normalised to single
  spaces: each line break, written CR LF, CR or LF, becomes one space, and the flag
  chooses the non-breaking space.
\<close>

fun replace_line_breaks :: "char \<Rightarrow> string \<Rightarrow> string" where
  "replace_line_breaks r [] = []"
| "replace_line_breaks r [c] = (if c = CHR 0x0D \<or> c = CHR 0x0A then [r] else [c])"
| "replace_line_breaks r (c # d # cs) =
     (if c = CHR 0x0D \<and> d = CHR 0x0A then r # replace_line_breaks r cs
      else if c = CHR 0x0D \<or> c = CHR 0x0A then r # replace_line_breaks r (d # cs)
      else c # replace_line_breaks r (d # cs))"

definition spec_lineBreaksToSpaces :: "string \<Rightarrow> bool \<Rightarrow> exn + string" where
  "spec_lineBreaksToSpaces text useNonBreakingSpace =
     Inr (replace_line_breaks (if useNonBreakingSpace then nbsp else CHR '' '') text)"

text \<open>
  Modelled from the spec: \<open>getAutocompleteQueryWithComma\<close> is not among the sources. The
  spec (4.1) inserts a separating comma only where the existing text ends mid-fragment;
  this model inserts none and accepts the incoming text, which is what the spec's
  scenarios show.
\<close>

definition spec_getAutocompleteQueryWithComma :: "string \<Rightarrow> string \<Rightarrow> exn + string" where
  "spec_getAutocompleteQueryWithComma prevQuery newQuery = Inr newQuery"

text \<open>
  Modelled from the spec: \<open>getUpdatedSubstitutionsMap\<close> is not among the sources. By the
  spec (3) the map only grows or is replaced wholesale and no key is deleted
  mid-session, so a keystroke leaves it as it is.
\<close>

definition spec_getUpdatedSubstitutionsMap ::
  "string \<Rightarrow> substitution_map \<Rightarrow> exn + substitution_map" where
  "spec_getUpdatedSubstitutionsMap query substitutions = Inr substitutions"

text \<open>
  Modelled from the spec: \<open>getQueryWithSubstitutions\<close> is not among the sources. By the
  spec (4.2, \<open>applyTo\<close>) every key of the map that occurs in the text is replaced, as a
  literal substring, by its identifier. \<open>replace_literal k v skip\<close> skips the rest of a
  key it has just replaced.
\<close>

fun replace_literal :: "string \<Rightarrow> string \<Rightarrow> nat \<Rightarrow> string \<Rightarrow> string" where
  "replace_literal k v skip [] = []"
| "replace_literal k v skip (c # cs) =
     (if 0 < skip then replace_literal k v (skip - 1) cs
      else if k \<noteq> [] \<and> take (length k) (c # cs) = k
           then v @ replace_literal k v (length k - 1) cs
           else c # replace_literal k v 0 cs)"

definition spec_getQueryWithSubstitutions :: "string \<Rightarrow> substitution_map \<Rightarrow> exn + string" where
  "spec_getQueryWithSubstitutions query substitutions =
     Inr (fold (\<lambda>(k, v) text. replace_literal k v 0 text) substitutions query)"

text \<open>
  Modelled from the spec: \<open>getQueryWithUpdatedValues\<close> is not among the sources. By the spec
  (4.3, 6, 8) the normalizer is a pure function that returns the canonical text or
  nothing, and an empty or whitespace-only text gives nothing; no rewriting is modelled.
\<close>

definition spec_getQueryWithUpdatedValues :: "string \<Rightarrow> exn + string option" where
  "spec_getQueryWithUpdatedValues query = Inr (if js_trim query = [] then None else Some query)"

text \<open>
  Modelled from the spec: \<open>getQueryWithoutAutocompletedPart\<close> is not among the sources. By
  the spec (4.4) it trims the partial fragment that is being typed: here, what follows
  the last colon, comma or space of the text.
\<close>

definition spec_getQueryWithoutAutocompletedPart :: "string \<Rightarrow> exn + string" where
  "spec_getQueryWithoutAutocompletedPart query =
     Inr (rev (dropWhile (\<lambda>c. c \<notin> {CHR '':'', CHR '','', CHR '' '', nbsp}) (rev query)))"

text \<open>
  Modelled from the spec: \<open>sanitizeSearchValue\<close> is not among the sources, and the spec
  only names its result the suggestion's fragment text; this model returns the text
  unchanged, as in scenario A.
\<close>

definition spec_sanitizeSearchValue :: "string \<Rightarrow> exn + string" where
  "spec_sanitizeSearchValue v = Inr v"

text \<open>
  Modelled from the spec: the collaborators above together, with a scheduler that does
  not throw, a clock that ticks once per read and a fixed random suffix. The theorems
  below hold for every \<open>env\<close>; this one instantiates them.
\<close>

definition spec_env :: env where
  "spec_env =
     \<lparr>CONST_SEARCH = spec_search_const,
      lineBreaksToSpaces = spec_lineBreaksToSpaces,
      getAutocompleteQueryWithComma = spec_getAutocompleteQueryWithComma,
      getUpdatedSubstitutionsMap = spec_getUpdatedSubstitutionsMap,
      getQueryWithSubstitutions = spec_getQueryWithSubstitutions,
      getQueryWithUpdatedValues = spec_getQueryWithUpdatedValues,
      getQueryWithoutAutocompletedPart = spec_getQueryWithoutAutocompletedPart,
      sanitizeSearchValue = spec_sanitizeSearchValue,
      runAfterInteractions = None,
      dateNow = (\<lambda>n. n),
      mathRandom = (\<lambda>n. ''k3x9q2a'')\<rparr>"

text \<open>
  The condition on the two submission helpers under which the empty buffer is rejected,
  as the spec (4.3, 8) expects: substituting and normalizing the empty text throws
  nothing and yields no usable query.
\<close>

definition emptyQueryUnusable :: "env \<Rightarrow> substitution_map \<Rightarrow> bool" where
  "emptyQueryUnusable env substitutions =
     (case getQueryWithSubstitutions env [] substitutions of
        Inl e \<Rightarrow> False
      | Inr queryWithSubstitutions \<Rightarrow>
          (case getQueryWithUpdatedValues env queryWithSubstitutions of
             Inl e \<Rightarrow> False
           | Inr updatedQuery \<Rightarrow> \<not> truthy updatedQuery))"

section \<open>Inputs of the spec's scenarios\<close>

text \<open>
  Scenario A of the spec (8): the buffer holds \<open>type:chat in:\<close> and the user picks the
  autocomplete item with fragment \<open>#general\<close> and identifier \<open>room_42\<close>.
\<close>

definition scenarioA_state :: router_state where
  "scenarioA_state =
     initial_state\<lparr>textInputValue := ''type:chat in:'', autocompleteQueryValue := ''type:chat in:'',
                   selection := \<lparr>sel_start = 13, sel_end = 13\<rparr>\<rparr>"

definition scenarioA_item :: search_query_item where
  "scenarioA_item =
     \<lparr>searchQuery = Some ''#general'', searchItemType = ''autocompleteSuggestion'',
      roomType = None, autocompleteID = Some ''room_42'', mapKey = Some ''in:#general'',
      policyID = None\<rparr>"

text \<open>The state that scenario A ends in: the suggestion is in the buffer and in the map.\<close>

definition scenarioA_accepted :: router_state where
  "scenarioA_accepted =
     initial_state\<lparr>textInputValue := ''type:chat in:#general'' @ [CHR 0xA0],
                   autocompleteQueryValue := ''type:chat in:#general'' @ [CHR 0xA0],
                   selection := \<lparr>sel_start = 22, sel_end = 22\<rparr>,
                   autocompleteSubstitutions := [(''in:#general'', ''room_42'')]\<rparr>"




section \<open>Theorems\<close>

subsection \<open>What each step leaves unchanged\<close>

text \<open>
  The fields that the claims are about, after each primitive step. With these as
  rewrite rules the callbacks are unfolded without unfolding the records.
\<close>

named_theorems frame

lemma emit_frame [frame]:
  "textInputValue (emit e st) = textInputValue st"
  "autocompleteQueryValue (emit e st) = autocompleteQueryValue st"
  "selection (emit e st) = selection st"
  "autocompleteSubstitutions (emit e st) = autocompleteSubstitutions st"
  "substitutionsSetCalls (emit e st) = substitutionsSetCalls st"
  "effects (emit e st) = effects st @ [e]"
  by (simp_all add: emit_def)

lemma date_now_frame [frame]:
  "textInputValue (snd (date_now env st)) = textInputValue st"
  "autocompleteQueryValue (snd (date_now env st)) = autocompleteQueryValue st"
  "selection (snd (date_now env st)) = selection st"
  "autocompleteSubstitutions (snd (date_now env st)) = autocompleteSubstitutions st"
  "substitutionsSetCalls (snd (date_now env st)) = substitutionsSetCalls st"
  "effects (snd (date_now env st)) = effects st"
  by (simp_all add: date_now_def)

lemma new_actionId_frame [frame]:
  "textInputValue (snd (new_actionId pre env st)) = textInputValue st"
  "autocompleteQueryValue (snd (new_actionId pre env st)) = autocompleteQueryValue st"
  "selection (snd (new_actionId pre env st)) = selection st"
  "autocompleteSubstitutions (snd (new_actionId pre env st)) = autocompleteSubstitutions st"
  "substitutionsSetCalls (snd (new_actionId pre env st)) = substitutionsSetCalls st"
  "effects (snd (new_actionId pre env st)) = effects st"
  by (simp_all add: new_actionId_def date_now_def math_random_def split_beta)

lemma setTextInputValue_frame [frame]:
  "textInputValue (setTextInputValue t st) = t"
  "autocompleteQueryValue (setTextInputValue t st) = autocompleteQueryValue st"
  "selection (setTextInputValue t st) = selection st"
  "autocompleteSubstitutions (setTextInputValue t st) = autocompleteSubstitutions st"
  "substitutionsSetCalls (setTextInputValue t st) = substitutionsSetCalls st"
  "effects (setTextInputValue t st) = effects st"
  by (simp_all add: setTextInputValue_def)

lemma setAutocompleteQueryValue_frame [frame]:
  "textInputValue (setAutocompleteQueryValue t st) = textInputValue st"
  "autocompleteQueryValue (setAutocompleteQueryValue t st) = t"
  "selection (setAutocompleteQueryValue t st) = selection st"
  "autocompleteSubstitutions (setAutocompleteQueryValue t st) = autocompleteSubstitutions st"
  "substitutionsSetCalls (setAutocompleteQueryValue t st) = substitutionsSetCalls st"
  "effects (setAutocompleteQueryValue t st) = effects st"
  by (simp_all add: setAutocompleteQueryValue_def)

lemma setSelection_frame [frame]:
  "textInputValue (setSelection r st) = textInputValue st"
  "autocompleteQueryValue (setSelection r st) = autocompleteQueryValue st"
  "selection (setSelection r st) = r"
  "autocompleteSubstitutions (setSelection r st) = autocompleteSubstitutions st"
  "substitutionsSetCalls (setSelection r st) = substitutionsSetCalls st"
  "effects (setSelection r st) = effects st"
  by (simp_all add: setSelection_def)

lemma setAutocompleteSubstitutions_frame [frame]:
  "textInputValue (setAutocompleteSubstitutions m st) = textInputValue st"
  "autocompleteQueryValue (setAutocompleteSubstitutions m st) = autocompleteQueryValue st"
  "selection (setAutocompleteSubstitutions m st) = selection st"
  "autocompleteSubstitutions (setAutocompleteSubstitutions m st) = m"
  "substitutionsSetCalls (setAutocompleteSubstitutions m st) = Suc (substitutionsSetCalls st)"
  "effects (setAutocompleteSubstitutions m st) = effects st"
  by (simp_all add: setAutocompleteSubstitutions_def)

lemma updateAndScrollToFocusedIndex_frame [frame]:
  "textInputValue (updateAndScrollToFocusedIndex i st) = textInputValue st"
  "autocompleteQueryValue (updateAndScrollToFocusedIndex i st) = autocompleteQueryValue st"
  "selection (updateAndScrollToFocusedIndex i st) = selection st"
  "autocompleteSubstitutions (updateAndScrollToFocusedIndex i st) = autocompleteSubstitutions st"
  "substitutionsSetCalls (updateAndScrollToFocusedIndex i st) = substitutionsSetCalls st"
  "effects (updateAndScrollToFocusedIndex i st) =
     (if listRefCurrent st then effects st @ [UpdateAndScrollToFocusedIndex i] else effects st)"
  by (simp_all add: updateAndScrollToFocusedIndex_def emit_def)

lemma shouldScroll_frame [frame]:
  "textInputValue (st\<lparr>shouldScrollRef := b\<rparr>) = textInputValue st"
  "autocompleteQueryValue (st\<lparr>shouldScrollRef := b\<rparr>) = autocompleteQueryValue st"
  "selection (st\<lparr>shouldScrollRef := b\<rparr>) = selection st"
  "autocompleteSubstitutions (st\<lparr>shouldScrollRef := b\<rparr>) = autocompleteSubstitutions st"
  "substitutionsSetCalls (st\<lparr>shouldScrollRef := b\<rparr>) = substitutionsSetCalls st"
  "effects (st\<lparr>shouldScrollRef := b\<rparr>) = effects st"
  by simp_all

lemma setFocusAndScrollToRight_frame [frame]:
  "textInputValue (snd (setFocusAndScrollToRight env aid st)) = textInputValue st"
  "autocompleteQueryValue (snd (setFocusAndScrollToRight env aid st)) = autocompleteQueryValue st"
  "selection (snd (setFocusAndScrollToRight env aid st)) = selection st"
  "autocompleteSubstitutions (snd (setFocusAndScrollToRight env aid st)) = autocompleteSubstitutions st"
  "substitutionsSetCalls (snd (setFocusAndScrollToRight env aid st)) = substitutionsSetCalls st"
  by (simp_all add: setFocusAndScrollToRight_def split_beta frame split: option.splits)

lemma onSearchQueryChange_try_selection:
  "selection (snd (onSearchQueryChange_try env cl aid t0 q a st)) = selection st"
  by (simp add: onSearchQueryChange_try_def Let_def split_beta frame split: sum.splits)

lemma onSearchQueryChange_selection:
  "selection (snd (onSearchQueryChange env cl q a st)) = selection st"
  by (simp add: onSearchQueryChange_def Let_def split_beta frame onSearchQueryChange_try_selection
      split: option.splits)

lemma onSearchQueryChange_try_ok:
  assumes "lineBreaksToSpaces env q True = Inr single"
    and "getAutocompleteQueryWithComma env (textInputValue cl) single = Inr updated"
    and "getUpdatedSubstitutionsMap env single (autocompleteSubstitutions cl) = Inr m'"
  shows "fst (onSearchQueryChange_try env cl aid t0 q a st) = None"
    and "textInputValue (snd (onSearchQueryChange_try env cl aid t0 q a st)) = updated"
    and "autocompleteQueryValue (snd (onSearchQueryChange_try env cl aid t0 q a st)) = updated"
    and "autocompleteSubstitutions (snd (onSearchQueryChange_try env cl aid t0 q a st)) =
           (if deepEqual (autocompleteSubstitutions cl) m' then autocompleteSubstitutions st else m')"
    and "substitutionsSetCalls (snd (onSearchQueryChange_try env cl aid t0 q a st)) =
           (if deepEqual (autocompleteSubstitutions cl) m' then substitutionsSetCalls st
            else Suc (substitutionsSetCalls st))"
  using assms
  by (simp_all add: onSearchQueryChange_try_def Let_def split_beta frame)

lemma onSearchQueryChange_ok:
  assumes "lineBreaksToSpaces env q True = Inr single"
    and "getAutocompleteQueryWithComma env (textInputValue cl) single = Inr updated"
    and "getUpdatedSubstitutionsMap env single (autocompleteSubstitutions cl) = Inr m'"
  shows "fst (onSearchQueryChange env cl q a st) = None"
    and "textInputValue (snd (onSearchQueryChange env cl q a st)) = updated"
    and "autocompleteQueryValue (snd (onSearchQueryChange env cl q a st)) = updated"
    and "autocompleteSubstitutions (snd (onSearchQueryChange env cl q a st)) =
           (if deepEqual (autocompleteSubstitutions cl) m' then autocompleteSubstitutions st else m')"
    and "substitutionsSetCalls (snd (onSearchQueryChange env cl q a st)) =
           (if deepEqual (autocompleteSubstitutions cl) m' then substitutionsSetCalls st
            else Suc (substitutionsSetCalls st))"
  using onSearchQueryChange_try_ok [OF assms]
  by (simp_all add: onSearchQueryChange_def Let_def split_beta frame)

lemma merge_substitution_frame [frame]:
  "textInputValue (merge_substitution cl key ident st) = textInputValue st"
  "autocompleteQueryValue (merge_substitution cl key ident st) = autocompleteQueryValue st"
  "selection (merge_substitution cl key ident st) = selection st"
  "effects (merge_substitution cl key ident st) = effects st"
  by (simp_all add: merge_substitution_def frame split: option.splits)

lemma merge_substitution_subs:
  "autocompleteSubstitutions (merge_substitution cl key ident st) =
     (if truthy key \<and> truthy ident
      then AList.update (or_empty key) (or_empty ident) (autocompleteSubstitutions cl)
      else autocompleteSubstitutions st)"
  "substitutionsSetCalls (merge_substitution cl key ident st) =
     (if truthy key \<and> truthy ident then Suc (substitutionsSetCalls st)
      else substitutionsSetCalls st)"
  by (auto simp: merge_substitution_def truthy_def of_str_def or_empty_def frame
           split: option.splits)

lemma accept_suggestion_ok:
  assumes "lineBreaksToSpaces env new True = Inr single"
    and "getAutocompleteQueryWithComma env (textInputValue cl) single = Inr updated"
    and "getUpdatedSubstitutionsMap env single (autocompleteSubstitutions cl) = Inr m'"
  shows "fst (accept_suggestion env cl aid t0 new key ident handled st) = None"
    and "textInputValue (snd (accept_suggestion env cl aid t0 new key ident handled st)) = updated"
    and "autocompleteQueryValue (snd (accept_suggestion env cl aid t0 new key ident handled st)) = updated"
    and "selection (snd (accept_suggestion env cl aid t0 new key ident handled st)) =
           \<lparr>sel_start = length new, sel_end = length new\<rparr>"
    and "autocompleteSubstitutions (snd (accept_suggestion env cl aid t0 new key ident handled st)) =
           (if truthy key \<and> truthy ident
            then AList.update (or_empty key) (or_empty ident) (autocompleteSubstitutions cl)
            else if deepEqual (autocompleteSubstitutions cl) m' then autocompleteSubstitutions st
            else m')"
  using onSearchQueryChange_ok [OF assms, of True st]
  by (simp_all add: accept_suggestion_def Let_def split_beta frame merge_substitution_subs)



lemma submitSearch_frame [frame]:
  "selection (snd (submitSearch env cl q st)) = selection st"
  "autocompleteSubstitutions (snd (submitSearch env cl q st)) = autocompleteSubstitutions st"
  "substitutionsSetCalls (snd (submitSearch env cl q st)) = substitutionsSetCalls st"
  by (simp_all add: submitSearch_def frame split: sum.splits option.splits)

text \<open>Unfolding the collaborators of the spec at a concrete input.\<close>

lemmas spec_env_simps =
  spec_env_def spec_search_const_def spec_lineBreaksToSpaces_def
  spec_getAutocompleteQueryWithComma_def spec_getUpdatedSubstitutionsMap_def
  spec_getQueryWithSubstitutions_def spec_getQueryWithUpdatedValues_def
  spec_getQueryWithoutAutocompletedPart_def spec_sanitizeSearchValue_def nbsp_def

subsection \<open>Merging into the substitution map\<close>

lemma deepEqual_refl: "deepEqual m m"
  by (simp add: deepEqual_def list_all_iff)

lemma update_twice: "AList.update k v (AList.update k v m) = AList.update k v m"
  by (induction m) auto

lemma updateAutocompleteSubstitutions_cases:
  "updateAutocompleteSubstitutions cl item st =
     (if truthy (autocompleteID item) \<and> truthy (mapKey item)
      then setAutocompleteSubstitutions
             (AList.update (or_empty (mapKey item)) (or_empty (autocompleteID item))
                (autocompleteSubstitutions cl)) st
      else st)"
  by (auto simp: updateAutocompleteSubstitutions_def truthy_def of_str_def or_empty_def
           split: option.splits)

subsection \<open>What the callbacks throw\<close>

text \<open>
  The exception that leaves a callback is the one its \<open>try\<close> block raised, and that one
  depends on the helpers alone, not on the pending state or on the action identifier.
\<close>

lemma onSearchQueryChange_try_fst:
  "fst (onSearchQueryChange_try env cl aid t0 q a st) =
     (case lineBreaksToSpaces env q True of
        Inl e \<Rightarrow> Some e
      | Inr single \<Rightarrow>
          (case getAutocompleteQueryWithComma env (textInputValue cl) single of
             Inl e \<Rightarrow> Some e
           | Inr updated \<Rightarrow>
               (case getUpdatedSubstitutionsMap env single (autocompleteSubstitutions cl) of
                  Inl e \<Rightarrow> Some e
                | Inr m \<Rightarrow> None)))"
  by (simp add: onSearchQueryChange_try_def Let_def split_beta split: sum.splits)

lemma onSearchQueryChange_fst:
  "fst (onSearchQueryChange env cl q a st) = fst (onSearchQueryChange_try env cl aid t0 q a st')"
  by (simp add: onSearchQueryChange_def Let_def split_beta onSearchQueryChange_try_fst
           split: option.splits sum.splits)

lemma onSearchQueryChange_throws:
  "fst (onSearchQueryChange env cl q a st) =
     (case lineBreaksToSpaces env q True of
        Inl e \<Rightarrow> Some e
      | Inr single \<Rightarrow>
          (case getAutocompleteQueryWithComma env (textInputValue cl) single of
             Inl e \<Rightarrow> Some e
           | Inr updated \<Rightarrow>
               (case getUpdatedSubstitutionsMap env single (autocompleteSubstitutions cl) of
                  Inl e \<Rightarrow> Some e
                | Inr m \<Rightarrow> None)))"
  using onSearchQueryChange_fst [of env cl q a st "[]" 0 st]
  by (simp only: onSearchQueryChange_try_fst)

lemma submitSearch_throws:
  "fst (submitSearch env cl q st) =
     (case getQueryWithSubstitutions env q (autocompleteSubstitutions cl) of
        Inl e \<Rightarrow> Some e
      | Inr queryWithSubstitutions \<Rightarrow>
          (case getQueryWithUpdatedValues env queryWithSubstitutions of
             Inl e \<Rightarrow> Some e
           | Inr updatedQuery \<Rightarrow> None))"
  by (simp add: submitSearch_def split: sum.splits option.splits)

lemma accept_suggestion_fst:
  "fst (accept_suggestion env cl aid t0 new key ident handled st) =
   fst (onSearchQueryChange env cl new True st)"
  by (simp add: accept_suggestion_def Let_def split_beta split: option.splits)

lemma onListItemPress_try_fst:
  "fst (onListItemPress_try env cl aid t0 item st) = fst (onListItemPress_try env cl aid' t0' item st')"
proof -
  let ?throws =
    "(case item of
        OptionData d \<Rightarrow> None
      | SearchQueryItem i \<Rightarrow>
          (case searchQuery i of
             None \<Rightarrow> None
           | Some q \<Rightarrow>
               if q = [] then None
               else if searchItemType i = ITEM_TYPE_CONTEXTUAL_SUGGESTION (CONST_SEARCH env) then
                 (case getContextualSearchQuery env i of
                    Inl e \<Rightarrow> Some e
                  | Inr contextual \<Rightarrow>
                      fst (onSearchQueryChange env cl (contextual @ [nbsp]) True cl))
               else if searchItemType i = ITEM_TYPE_AUTOCOMPLETE_SUGGESTION (CONST_SEARCH env)
                       \<and> textInputValue cl \<noteq> [] then
                 (case getQueryWithoutAutocompletedPart env (textInputValue cl) of
                    Inl e \<Rightarrow> Some e
                  | Inr trimmed \<Rightarrow>
                      (case sanitizeSearchValue env q of
                         Inl e \<Rightarrow> Some e
                       | Inr sanitized \<Rightarrow>
                           fst (onSearchQueryChange env cl (trimmed @ sanitized @ [nbsp]) True cl)))
               else fst (submitSearch env cl q cl)))"
  have c: "fst (onListItemPress_try env cl a t item s) = ?throws" for a t s
  proof (cases item)
    case (OptionData d)
    then show ?thesis
      by (simp add: onListItemPress_try_def Let_def split_beta)
  next
    case (SearchQueryItem i)
    have q: "\<And>new. fst (onSearchQueryChange env cl new True s) = fst (onSearchQueryChange env cl new True cl)"
      by (simp only: onSearchQueryChange_throws)
    have u: "\<And>q. fst (submitSearch env cl q s) = fst (submitSearch env cl q cl)"
      by (simp only: submitSearch_throws)
    show ?thesis
      unfolding SearchQueryItem onListItemPress_try_def
      by (simp add: Let_def split_beta accept_suggestion_fst q u
               split: option.splits sum.splits)
  qed
  show ?thesis
    by (simp only: c)
qed

lemma onListItemPress_fst:
  "fst (onListItemPress env cl item st) = fst (onListItemPress_try env cl aid t0 item st')"
  by (simp add: onListItemPress_def Let_def split_beta split: option.splits)
     (metis onListItemPress_try_fst)+

lemma setFocusAndScrollToRight_swallows:
  "fst (setFocusAndScrollToRight env aid st) = None"
  by (simp add: setFocusAndScrollToRight_def split_beta split: option.splits)

text \<open>
  The reads of the clock and of the random source, to name the values that a log entry
  carries.
\<close>

named_theorems clock

lemma emit_clock [clock]:
  "dateNowCalls (emit e st) = dateNowCalls st"
  "mathRandomCalls (emit e st) = mathRandomCalls st"
  by (simp_all add: emit_def)

lemma date_now_clock [clock]:
  "fst (date_now env st) = dateNow env (dateNowCalls st)"
  "dateNowCalls (snd (date_now env st)) = Suc (dateNowCalls st)"
  "mathRandomCalls (snd (date_now env st)) = mathRandomCalls st"
  by (simp_all add: date_now_def)

lemma new_actionId_clock [clock]:
  "fst (new_actionId pre env st) =
     pre @ show_nat (dateNow env (dateNowCalls st)) @ ''_'' @ mathRandom env (mathRandomCalls st)"
  "dateNowCalls (snd (new_actionId pre env st)) = Suc (dateNowCalls st)"
  "mathRandomCalls (snd (new_actionId pre env st)) = Suc (mathRandomCalls st)"
  by (simp_all add: new_actionId_def date_now_def math_random_def split_beta)

lemma setters_clock [clock]:
  "dateNowCalls (setTextInputValue t st) = dateNowCalls st"
  "dateNowCalls (setAutocompleteQueryValue t st) = dateNowCalls st"
  "dateNowCalls (setSelection r st) = dateNowCalls st"
  "dateNowCalls (setAutocompleteSubstitutions m st) = dateNowCalls st"
  "dateNowCalls (updateAndScrollToFocusedIndex i st) = dateNowCalls st"
  "dateNowCalls (st\<lparr>shouldScrollRef := b\<rparr>) = dateNowCalls st"
  by (simp_all add: setTextInputValue_def setAutocompleteQueryValue_def setSelection_def
        setAutocompleteSubstitutions_def updateAndScrollToFocusedIndex_def emit_def)

lemma onSearchQueryChange_try_clock:
  "fst (onSearchQueryChange_try env cl aid t0 q a st) = Some e \<Longrightarrow>
   dateNowCalls (snd (onSearchQueryChange_try env cl aid t0 q a st)) = dateNowCalls st"
  by (auto simp: onSearchQueryChange_try_def Let_def split_beta clock split: sum.splits)

lemma onSearchQueryChange_alert_exact:
  assumes "fst (onSearchQueryChange env cl q a st) = Some e"
  shows "last (effects (snd (onSearchQueryChange env cl q a st))) =
           LogAlert ''[CMD_K_FREEZE] Search query change failed''
             [(''actionId'',
                 Str (''search_query_'' @ show_nat (dateNow env (dateNowCalls st)) @ ''_''
                      @ mathRandom env (mathRandomCalls st))),
              (''error'', Str e),
              (''duration'',
                 Num (int (dateNow env (dateNowCalls st + 2)) - int (dateNow env (dateNowCalls st + 1)))),
              (''inputLength'', Num (int (length q))),
              (''timestamp'', Num (int (dateNow env (dateNowCalls st + 2))))]"
    and "dateNowCalls (snd (onSearchQueryChange env cl q a st)) = dateNowCalls st + 3"
  using assms
  by (auto simp: onSearchQueryChange_def Let_def split_beta frame clock duration_def
                 onSearchQueryChange_try_clock
           split: option.splits)


lemma submitSearch_failed:
  "fst (submitSearch env cl q st) = Some e \<Longrightarrow> snd (submitSearch env cl q st) = st"
  by (auto simp: submitSearch_def split: sum.splits option.splits if_splits)

lemma accept_suggestion_failed:
  assumes "fst (accept_suggestion env cl aid t0 new key ident handled st) = Some e"
  shows "dateNowCalls (snd (accept_suggestion env cl aid t0 new key ident handled st))
           = dateNowCalls st + 3"
proof -
  have f: "fst (onSearchQueryChange env cl new True st) = Some e"
    using assms by (simp add: accept_suggestion_fst)
  then have "snd (accept_suggestion env cl aid t0 new key ident handled st)
               = snd (onSearchQueryChange env cl new True st)"
    by (simp add: accept_suggestion_def split_beta)
  then show ?thesis
    using onSearchQueryChange_alert_exact(2) [OF f] by simp
qed

lemma onListItemPress_try_clock:
  assumes "fst (onListItemPress_try env cl aid t0 item st) = Some e"
  shows "dateNowCalls (snd (onListItemPress_try env cl aid t0 item st)) = dateNowCalls st
         \<or> dateNowCalls (snd (onListItemPress_try env cl aid t0 item st)) = dateNowCalls st + 3"
proof (cases item)
  case (OptionData d)
  then show ?thesis
    using assms by (simp add: onListItemPress_try_def Let_def split_beta)
next
  case (SearchQueryItem i)
  show ?thesis
    using assms accept_suggestion_failed [of env cl aid t0 _ _ _ _ st e]
      submitSearch_failed [of env cl _ st e]
    unfolding SearchQueryItem onListItemPress_try_def
    by (auto simp: Let_def split_beta split: option.splits sum.splits if_splits)
qed


lemma onListItemPress_alert_exact:
  assumes "fst (onListItemPress env cl item st) = Some e"
  shows "last (effects (snd (onListItemPress env cl item st))) =
           LogAlert ''[CMD_K_FREEZE] List item press failed''
             [(''actionId'',
                 Str (''list_item_press_'' @ show_nat (dateNow env (dateNowCalls st)) @ ''_''
                      @ mathRandom env (mathRandomCalls st))),
              (''error'', Str e),
              (''duration'',
                 Num (int (dateNow env (dateNowCalls (snd (onListItemPress env cl item st)) - 1))
                      - int (dateNow env (dateNowCalls st + 1)))),
              (''itemType'', itemType_field item),
              (''searchItemType'', searchItemType_field item),
              (''timestamp'',
                 Num (int (dateNow env (dateNowCalls (snd (onListItemPress env cl item st)) - 1))))]"
    and "dateNowCalls (snd (onListItemPress env cl item st)) = dateNowCalls st + 3
         \<or> dateNowCalls (snd (onListItemPress env cl item st)) = dateNowCalls st + 6"
proof -
  show "last (effects (snd (onListItemPress env cl item st))) =
           LogAlert ''[CMD_K_FREEZE] List item press failed''
             [(''actionId'',
                 Str (''list_item_press_'' @ show_nat (dateNow env (dateNowCalls st)) @ ''_''
                      @ mathRandom env (mathRandomCalls st))),
              (''error'', Str e),
              (''duration'',
                 Num (int (dateNow env (dateNowCalls (snd (onListItemPress env cl item st)) - 1))
                      - int (dateNow env (dateNowCalls st + 1)))),
              (''itemType'', itemType_field item),
              (''searchItemType'', searchItemType_field item),
              (''timestamp'',
                 Num (int (dateNow env (dateNowCalls (snd (onListItemPress env cl item st)) - 1))))]"
    using assms
    by (auto simp: onListItemPress_def Let_def split_beta frame clock duration_def
             split: option.splits)
  show "dateNowCalls (snd (onListItemPress env cl item st)) = dateNowCalls st + 3
         \<or> dateNowCalls (snd (onListItemPress env cl item st)) = dateNowCalls st + 6"
    using assms
    by (auto simp: onListItemPress_def Let_def split_beta frame clock
             split: option.splits dest!: onListItemPress_try_clock)
qed

lemma setFocusAndScrollToRight_alert_exact:
  "runAfterInteractions env = Some e \<Longrightarrow>
     effects (snd (setFocusAndScrollToRight env aid st)) =
       effects st @ [LogAlert ''[CMD_K_FREEZE] Focus and scroll failed''
                       [(''actionId'', Str aid), (''error'', Str e),
                        (''timestamp'', Num (int (dateNow env (dateNowCalls st))))]]"
  by (simp add: setFocusAndScrollToRight_def split_beta frame clock)

text \<open>Unfolding the router down to its primitive steps, to run it on a concrete input.\<close>

lemmas router_defs =
  dispatch_def onListItemPress_def onListItemPress_try_def accept_suggestion_def
  onSearchQueryChange_def onSearchQueryChange_try_def new_actionId_def date_now_def math_random_def
  emit_def Let_def setTextInputValue_def setAutocompleteQueryValue_def setSelection_def
  setAutocompleteSubstitutions_def merge_substitution_def setFocusAndScrollToRight_def
  updateAndScrollToFocusedIndex_def deepEqual_def show_nat_def digit_char_def duration_def
  itemType_field_def searchItemType_field_def truthy_def of_str_def

subsection \<open>Navigation events of a submission\<close>

lemma navigation_events_frame [frame]:
  "navigation_events (emit e st) = navigation_events st @ navigations e"
  "navigation_events (snd (date_now env st)) = navigation_events st"
  "navigation_events (snd (new_actionId pre env st)) = navigation_events st"
  "navigation_events (setTextInputValue t st) = navigation_events st"
  "navigation_events (setAutocompleteQueryValue t st) = navigation_events st"
  by (simp_all add: navigation_events_def frame)

lemma submitSearch_usable:
  assumes "getQueryWithSubstitutions env q (autocompleteSubstitutions cl) = Inr qs"
    and "getQueryWithUpdatedValues env qs = Inr (Some u)"
    and "u \<noteq> []"
  shows "fst (submitSearch env cl q st) = None"
    and "textInputValue (snd (submitSearch env cl q st)) = []"
    and "effects (snd (submitSearch env cl q st)) =
           effects st @ [BackHistory [OnRouterClose, NavigationNavigate (SEARCH_ROOT u)]]"
    and "navigation_events (snd (submitSearch env cl q st)) = navigation_events st @ [SEARCH_ROOT u]"
  using assms by (simp_all add: submitSearch_def frame)

lemma submitSearch_unusable:
  assumes "getQueryWithSubstitutions env q (autocompleteSubstitutions cl) = Inr qs"
    and "getQueryWithUpdatedValues env qs = Inr r"
    and "\<not> truthy r"
  shows "submitSearch env cl q st = (None, st)"
  using assms by (auto simp: submitSearch_def truthy_def of_str_def split: option.splits)

lemma onListItemPress_try_search:
  assumes "searchItemType i \<noteq> ITEM_TYPE_CONTEXTUAL_SUGGESTION (CONST_SEARCH env)"
    and "searchItemType i \<noteq> ITEM_TYPE_AUTOCOMPLETE_SUGGESTION (CONST_SEARCH env) \<or> textInputValue cl = []"
    and "searchQuery i = Some q" and "q \<noteq> []"
    and "getQueryWithSubstitutions env q (autocompleteSubstitutions cl) = Inr qs"
    and "getQueryWithUpdatedValues env qs = Inr (Some u)"
    and "u \<noteq> []"
  shows "fst (onListItemPress_try env cl aid t0 (SearchQueryItem i) st) = None"
    and "navigation_events (snd (onListItemPress_try env cl aid t0 (SearchQueryItem i) st))
           = navigation_events st @ [SEARCH_ROOT u]"
  using assms(1-4) submitSearch_usable(1,4) [OF assms(5-7)]
  by (auto simp: onListItemPress_try_def Let_def split_beta frame)

lemma onListItemPress_search:
  assumes "searchItemType i \<noteq> ITEM_TYPE_CONTEXTUAL_SUGGESTION (CONST_SEARCH env)"
    and "searchItemType i \<noteq> ITEM_TYPE_AUTOCOMPLETE_SUGGESTION (CONST_SEARCH env) \<or> textInputValue cl = []"
    and "searchQuery i = Some q" and "q \<noteq> []"
    and "getQueryWithSubstitutions env q (autocompleteSubstitutions cl) = Inr qs"
    and "getQueryWithUpdatedValues env qs = Inr (Some u)"
    and "u \<noteq> []"
  shows "fst (onListItemPress env cl (SearchQueryItem i) st) = None"
    and "navigation_events (snd (onListItemPress env cl (SearchQueryItem i) st))
           = navigation_events st @ [SEARCH_ROOT u]"
  by (simp_all add: onListItemPress_def Let_def split_beta frame
        onListItemPress_try_search [OF assms])

subsection \<open>WebGenericPressable\<close>

lemma accessible_value_cases:
  "accessible_value props = (if accessible props = Some False then Bool False else Bool True)"
  by (cases "accessible props") (auto simp: accessible_value_def of_bool_def)

text \<open>
  C10. In WebGenericPressable the forwarded tabIndex is always 0 or -1: it is -1 exactly
  when \<open>props.tabIndex ?? (!accessible || !focusable)\<close> is truthy and 0 otherwise. An
  explicit tabIndex prop only contributes its truthiness, so a value other than 0 and -1
  is never forwarded (tabIndex 5 yields -1), and \<open>accessible\<close> is \<open>true\<close> when the prop is
  undefined.
\<close>

theorem WebGenericPressable_tabIndex_spec:
  "WebGenericPressable_tabIndex props \<in> {0, - 1}
   \<and> (WebGenericPressable_tabIndex props = - 1 \<longleftrightarrow>
        js_truthy (nullish (of_num (tabIndex props))
          (Bool (\<not> js_truthy (accessible_value props) \<or> \<not> focusable_value props))))
   \<and> (WebGenericPressable_tabIndex props = 0 \<longleftrightarrow>
        \<not> js_truthy (nullish (of_num (tabIndex props))
          (Bool (\<not> js_truthy (accessible_value props) \<or> \<not> focusable_value props))))
   \<and> (\<forall>t. tabIndex props = Some t \<longrightarrow>
          WebGenericPressable_tabIndex props = (if t = 0 then 0 else - 1))
   \<and> (\<forall>t. tabIndex props = Some t \<longrightarrow> t \<noteq> 0 \<longrightarrow> t \<noteq> - 1 \<longrightarrow>
          WebGenericPressable_tabIndex props \<noteq> t)
   \<and> (tabIndex props = Some 5 \<longrightarrow> WebGenericPressable_tabIndex props = - 1)
   \<and> (tabIndex props = None \<longrightarrow>
          WebGenericPressable_tabIndex props =
            (if accessible props = Some False \<or> focusable props = Some False then - 1 else 0))
   \<and> (accessible props = None \<longrightarrow> accessible_value props = Bool True)"
proof -
  have c: "tabIndex_condition props =
      (case tabIndex props of
         Some t \<Rightarrow> Num t
       | None \<Rightarrow> Bool (accessible props = Some False \<or> focusable props = Some False))"
    by (cases "tabIndex props"; cases "focusable props")
       (auto simp: tabIndex_condition_def of_num_def accessible_value_cases focusable_value_def)
  show ?thesis
    unfolding WebGenericPressable_tabIndex_def
    using c
    by (cases "tabIndex props")
       (auto simp: tabIndex_condition_def accessible_value_cases)
qed

theorem WebGenericPressable_tabIndex_spec_witness:
  "WebGenericPressable_tabIndex \<lparr>focusable = None, accessible = None, tabIndex = Some 5\<rparr> = - 1
   \<and> WebGenericPressable_tabIndex \<lparr>focusable = None, accessible = None, tabIndex = Some 5\<rparr> \<noteq> 5
   \<and> accessible_value \<lparr>focusable = None, accessible = None, tabIndex = Some 5\<rparr> = Bool True"
  using WebGenericPressable_tabIndex_spec
          [of "\<lparr>focusable = None, accessible = None, tabIndex = Some 5\<rparr>"]
  by simp

subsection \<open>ReportFieldsEditValuePage\<close>



subsection \<open>SearchRouter: accepting a suggestion\<close>







subsection \<open>SearchRouter: submitting\<close>

text \<open>
  C1, as the spec states it, fails: a submission whose substituted and normalized query
  is non-empty empties the buffer and navigates, but the substitution map stays as it
  was. Here the state is the one scenario A ends in.
\<close>

theorem submitSearch_keeps_substitutions:
  "getQueryWithSubstitutions spec_env (textInputValue scenarioA_accepted)
       (autocompleteSubstitutions scenarioA_accepted) = Inr (''type:chat room_42'' @ [CHR 0xA0])
   \<and> getQueryWithUpdatedValues spec_env (''type:chat room_42'' @ [CHR 0xA0])
       = Inr (Some (''type:chat room_42'' @ [CHR 0xA0]))
   \<and> navigation_events (snd (dispatch (\<lambda>cl. submitSearch spec_env cl (textInputValue cl)) scenarioA_accepted))
       = [SEARCH_ROOT (''type:chat room_42'' @ [CHR 0xA0])]
   \<and> textInputValue (snd (dispatch (\<lambda>cl. submitSearch spec_env cl (textInputValue cl)) scenarioA_accepted)) = []
   \<and> autocompleteSubstitutions
        (snd (dispatch (\<lambda>cl. submitSearch spec_env cl (textInputValue cl)) scenarioA_accepted))
       = [(''in:#general'', ''room_42'')]
   \<and> autocompleteSubstitutions
        (snd (dispatch (\<lambda>cl. submitSearch spec_env cl (textInputValue cl)) scenarioA_accepted))
       \<noteq> []"
  by (simp add: dispatch_def submitSearch_def scenarioA_accepted_def initial_state_def spec_env_simps
        navigation_events_def frame js_trim_def js_whitespace_def)

text \<open>
  C1, amended. For every submission whose query, after the substitution map and the
  normalizer are applied, is non-empty, \<open>submitSearch\<close> throws nothing, sets the text
  buffer and the autocomplete query value to the empty string, leaves the substitution
  map and the selection as they were, and calls \<open>backHistory\<close> exactly once, with a
  callback that closes the router and hands the canonical query to
  \<open>Navigation.navigate\<close> once.
\<close>

theorem submitSearch_navigates_once:
  assumes "getQueryWithSubstitutions env queryString (autocompleteSubstitutions cl) = Inr queryWithSubstitutions"
    and "getQueryWithUpdatedValues env queryWithSubstitutions = Inr (Some updatedQuery)"
    and "updatedQuery \<noteq> []"
  shows "fst (submitSearch env cl queryString st) = None
    \<and> textInputValue (snd (submitSearch env cl queryString st)) = []
    \<and> autocompleteQueryValue (snd (submitSearch env cl queryString st)) = []
    \<and> autocompleteSubstitutions (snd (submitSearch env cl queryString st)) = autocompleteSubstitutions st
    \<and> selection (snd (submitSearch env cl queryString st)) = selection st
    \<and> effects (snd (submitSearch env cl queryString st)) =
         effects st @ [BackHistory [OnRouterClose, NavigationNavigate (SEARCH_ROOT updatedQuery)]]
    \<and> navigation_events (snd (submitSearch env cl queryString st)) =
         navigation_events st @ [SEARCH_ROOT updatedQuery]"
  using assms
  by (simp add: submitSearch_def frame navigation_events_def)

theorem submitSearch_navigates_once_witness:
  "fst (submitSearch spec_env scenarioA_accepted (textInputValue scenarioA_accepted) scenarioA_accepted) = None
   \<and> textInputValue (snd (submitSearch spec_env scenarioA_accepted (textInputValue scenarioA_accepted)
                            scenarioA_accepted)) = []
   \<and> navigation_events (snd (submitSearch spec_env scenarioA_accepted (textInputValue scenarioA_accepted)
                            scenarioA_accepted)) = [SEARCH_ROOT (''type:chat room_42'' @ [CHR 0xA0])]
   \<and> autocompleteSubstitutions (snd (submitSearch spec_env scenarioA_accepted
                            (textInputValue scenarioA_accepted) scenarioA_accepted))
        = [(''in:#general'', ''room_42'')]"
  using submitSearch_navigates_once
          [of spec_env "textInputValue scenarioA_accepted" scenarioA_accepted
              "''type:chat room_42'' @ [CHR 0xA0]" "''type:chat room_42'' @ [CHR 0xA0]"
              scenarioA_accepted]
  by (simp add: scenarioA_accepted_def initial_state_def spec_env_simps navigation_events_def
        js_trim_def js_whitespace_def)

text \<open>
  C2. If the substitution map and then the normalizer yield no usable query (\<open>undefined\<close>
  or the empty string), \<open>submitSearch\<close> is a silent no-op: it throws nothing, makes no
  call, navigation included, and leaves every piece of state as it was.
\<close>

theorem submitSearch_noop:
  assumes "getQueryWithSubstitutions env queryString (autocompleteSubstitutions cl) = Inr queryWithSubstitutions"
    and "getQueryWithUpdatedValues env queryWithSubstitutions = Inr updatedQuery"
    and "\<not> truthy updatedQuery"
  shows "submitSearch env cl queryString st = (None, st)"
  using assms
  by (auto simp: submitSearch_def truthy_def of_str_def split: option.splits)

theorem submitSearch_noop_witness:
  "submitSearch spec_env scenarioA_accepted [CHR '' '', CHR 0xA0] scenarioA_accepted
     = (None, scenarioA_accepted)"
  using submitSearch_noop
          [of spec_env "[CHR '' '', CHR 0xA0]" scenarioA_accepted "[CHR '' '', CHR 0xA0]" None
              scenarioA_accepted]
  by (simp add: scenarioA_accepted_def initial_state_def spec_env_simps truthy_def of_str_def
        js_trim_def js_whitespace_def)

text \<open>
  C3, as the spec states it, fails. Two calls of the submit callback of one render, the
  state it captured unchanged between them, both read the same buffer: the second call
  navigates again, with the same query.
\<close>

theorem onSubmit_same_closure_navigates_twice:
  "textInputValue scenarioA_accepted = ''type:chat in:#general'' @ [CHR 0xA0]
   \<and> navigation_events scenarioA_accepted = []
   \<and> navigation_events (snd (onSubmit spec_env None scenarioA_accepted scenarioA_accepted))
       = [SEARCH_ROOT (''type:chat room_42'' @ [CHR 0xA0])]
   \<and> navigation_events
        (snd (onSubmit spec_env None scenarioA_accepted
                (snd (onSubmit spec_env None scenarioA_accepted scenarioA_accepted))))
       = [SEARCH_ROOT (''type:chat room_42'' @ [CHR 0xA0]),
          SEARCH_ROOT (''type:chat room_42'' @ [CHR 0xA0])]"
proof -
  have h: "getQueryWithSubstitutions spec_env (textInputValue scenarioA_accepted)
              (autocompleteSubstitutions scenarioA_accepted) = Inr (''type:chat room_42'' @ [CHR 0xA0])"
    "getQueryWithUpdatedValues spec_env (''type:chat room_42'' @ [CHR 0xA0])
              = Inr (Some (''type:chat room_42'' @ [CHR 0xA0]))"
    "''type:chat room_42'' @ [CHR 0xA0] \<noteq> []"
    by (simp_all add: scenarioA_accepted_def initial_state_def spec_env_simps js_trim_def
          js_whitespace_def)
  have n0: "navigation_events scenarioA_accepted = []"
    "textInputValue scenarioA_accepted = ''type:chat in:#general'' @ [CHR 0xA0]"
    by (simp_all add: scenarioA_accepted_def initial_state_def navigation_events_def)
  have s1: "navigation_events (snd (onSubmit spec_env None scenarioA_accepted scenarioA_accepted))
       = [SEARCH_ROOT (''type:chat room_42'' @ [CHR 0xA0])]"
    unfolding onSubmit_def option.case
    by (simp only: submitSearch_usable(4) [OF h] n0(1) append_Nil)
  have s2: "navigation_events
        (snd (onSubmit spec_env None scenarioA_accepted
                (snd (onSubmit spec_env None scenarioA_accepted scenarioA_accepted))))
       = [SEARCH_ROOT (''type:chat room_42'' @ [CHR 0xA0]),
          SEARCH_ROOT (''type:chat room_42'' @ [CHR 0xA0])]"
    unfolding onSubmit_def option.case
    by (simp only: submitSearch_usable(4) [OF h] n0(1) append_Nil append_Cons)
  show ?thesis
    using n0 s1 s2 by blast
qed

text \<open>
  C3, amended. Submit is called on a buffer whose query is usable, with no option
  focused in the list: it navigates once and clears the buffer. A second call by the
  callback of the next render, again with no option focused, submits the empty buffer.
  It is a no-op, so that one navigation event results from the two calls, when the
  substitution map and the normalizer yield no usable query for the empty text
  (\<open>emptyQueryUnusable\<close>) or throw; it navigates a second time when they yield a usable
  one. A second call by the callback of the same render navigates a second time with the
  same query. A second call with a search item focused in the list submits the query of
  that item and navigates a second time when that query is usable.
\<close>

theorem onSubmit_twice:
  assumes "getQueryWithSubstitutions env (textInputValue st) (autocompleteSubstitutions st)
             = Inr queryWithSubstitutions"
    and "getQueryWithUpdatedValues env queryWithSubstitutions = Inr (Some updatedQuery)"
    and "updatedQuery \<noteq> []"
  shows "fst (dispatch (onSubmit env None) st) = None
    \<and> textInputValue (snd (dispatch (onSubmit env None) st)) = []
    \<and> effects (snd (dispatch (onSubmit env None) st))
        = effects st @ [BackHistory [OnRouterClose, NavigationNavigate (SEARCH_ROOT updatedQuery)]]
    \<and> navigation_events (snd (dispatch (onSubmit env None) st))
        = navigation_events st @ [SEARCH_ROOT updatedQuery]
    \<and> (emptyQueryUnusable env (autocompleteSubstitutions st) \<longrightarrow>
         dispatch (onSubmit env None) (snd (dispatch (onSubmit env None) st))
           = (None, snd (dispatch (onSubmit env None) st))
         \<and> navigation_events
             (snd (dispatch (onSubmit env None) (snd (dispatch (onSubmit env None) st))))
           = navigation_events st @ [SEARCH_ROOT updatedQuery])
    \<and> (\<forall>q0 u0. getQueryWithSubstitutions env [] (autocompleteSubstitutions st) = Inr q0
              \<and> getQueryWithUpdatedValues env q0 = Inr (Some u0) \<and> u0 \<noteq> [] \<longrightarrow>
         navigation_events
             (snd (dispatch (onSubmit env None) (snd (dispatch (onSubmit env None) st))))
           = navigation_events st @ [SEARCH_ROOT updatedQuery, SEARCH_ROOT u0])
    \<and> (\<forall>e. fst (dispatch (onSubmit env None) (snd (dispatch (onSubmit env None) st))) = Some e \<longrightarrow>
         navigation_events
             (snd (dispatch (onSubmit env None) (snd (dispatch (onSubmit env None) st))))
           = navigation_events st @ [SEARCH_ROOT updatedQuery])
    \<and> navigation_events (snd (onSubmit env None st (snd (dispatch (onSubmit env None) st))))
        = navigation_events st @ [SEARCH_ROOT updatedQuery, SEARCH_ROOT updatedQuery]
    \<and> (\<forall>i q2 qs2 u2.
           searchItemType i \<noteq> ITEM_TYPE_CONTEXTUAL_SUGGESTION (CONST_SEARCH env)
           \<and> searchQuery i = Some q2 \<and> q2 \<noteq> []
           \<and> getQueryWithSubstitutions env q2 (autocompleteSubstitutions st) = Inr qs2
           \<and> getQueryWithUpdatedValues env qs2 = Inr (Some u2) \<and> u2 \<noteq> [] \<longrightarrow>
         navigation_events
             (snd (dispatch (onSubmit env (Some (SearchQueryItem i)))
                    (snd (dispatch (onSubmit env None) st))))
           = navigation_events st @ [SEARCH_ROOT updatedQuery, SEARCH_ROOT u2])"
proof -
  let ?st1 = "snd (dispatch (onSubmit env None) st)"
  note s = submitSearch_usable [OF assms]
  have st1: "?st1 = snd (submitSearch env st (textInputValue st) st)"
    by (simp add: dispatch_def onSubmit_def)
  have a: "fst (dispatch (onSubmit env None) st) = None"
    by (simp add: dispatch_def onSubmit_def s)
  have b: "textInputValue ?st1 = []"
    "effects ?st1 = effects st @ [BackHistory [OnRouterClose, NavigationNavigate (SEARCH_ROOT updatedQuery)]]"
    "navigation_events ?st1 = navigation_events st @ [SEARCH_ROOT updatedQuery]"
    by (simp_all add: st1 s)
  have m: "autocompleteSubstitutions ?st1 = autocompleteSubstitutions st"
    by (simp add: st1 frame)
  have second: "dispatch (onSubmit env None) ?st1 = submitSearch env ?st1 [] ?st1"
    by (simp add: dispatch_def [of _ ?st1] onSubmit_def b(1))
  have c: "emptyQueryUnusable env (autocompleteSubstitutions st) \<longrightarrow>
         dispatch (onSubmit env None) ?st1 = (None, ?st1)
         \<and> navigation_events (snd (dispatch (onSubmit env None) ?st1))
           = navigation_events st @ [SEARCH_ROOT updatedQuery]"
  proof
    assume "emptyQueryUnusable env (autocompleteSubstitutions st)"
    then obtain q0 r0 where
      "getQueryWithSubstitutions env [] (autocompleteSubstitutions ?st1) = Inr q0"
      "getQueryWithUpdatedValues env q0 = Inr r0" "\<not> truthy r0"
      by (auto simp: emptyQueryUnusable_def m split: sum.splits)
    then have "submitSearch env ?st1 [] ?st1 = (None, ?st1)"
      by (rule submitSearch_unusable)
    then show "dispatch (onSubmit env None) ?st1 = (None, ?st1)
         \<and> navigation_events (snd (dispatch (onSubmit env None) ?st1))
           = navigation_events st @ [SEARCH_ROOT updatedQuery]"
      by (simp add: second b(3))
  qed
  have d: "\<forall>q0 u0. getQueryWithSubstitutions env [] (autocompleteSubstitutions st) = Inr q0
              \<and> getQueryWithUpdatedValues env q0 = Inr (Some u0) \<and> u0 \<noteq> [] \<longrightarrow>
         navigation_events (snd (dispatch (onSubmit env None) ?st1))
           = navigation_events st @ [SEARCH_ROOT updatedQuery, SEARCH_ROOT u0]"
  proof (intro allI impI)
    fix q0 u0
    assume "getQueryWithSubstitutions env [] (autocompleteSubstitutions st) = Inr q0
              \<and> getQueryWithUpdatedValues env q0 = Inr (Some u0) \<and> u0 \<noteq> []"
    then have h: "getQueryWithSubstitutions env [] (autocompleteSubstitutions ?st1) = Inr q0"
      "getQueryWithUpdatedValues env q0 = Inr (Some u0)" "u0 \<noteq> []"
      by (simp_all add: m)
    have "navigation_events (snd (submitSearch env ?st1 [] ?st1))
                 = navigation_events ?st1 @ [SEARCH_ROOT u0]"
      by (rule submitSearch_usable(4) [OF h])
    then show "navigation_events (snd (dispatch (onSubmit env None) ?st1))
           = navigation_events st @ [SEARCH_ROOT updatedQuery, SEARCH_ROOT u0]"
      by (simp add: second b(3))
  qed
  have e: "\<forall>e. fst (dispatch (onSubmit env None) ?st1) = Some e \<longrightarrow>
         navigation_events (snd (dispatch (onSubmit env None) ?st1))
           = navigation_events st @ [SEARCH_ROOT updatedQuery]"
    by (simp add: second b(3) submitSearch_failed)
  have f: "navigation_events (snd (onSubmit env None st ?st1))
        = navigation_events st @ [SEARCH_ROOT updatedQuery, SEARCH_ROOT updatedQuery]"
    by (simp add: onSubmit_def s(4) b(3))
  have g: "\<forall>i q2 qs2 u2.
           searchItemType i \<noteq> ITEM_TYPE_CONTEXTUAL_SUGGESTION (CONST_SEARCH env)
           \<and> searchQuery i = Some q2 \<and> q2 \<noteq> []
           \<and> getQueryWithSubstitutions env q2 (autocompleteSubstitutions st) = Inr qs2
           \<and> getQueryWithUpdatedValues env qs2 = Inr (Some u2) \<and> u2 \<noteq> [] \<longrightarrow>
         navigation_events (snd (dispatch (onSubmit env (Some (SearchQueryItem i))) ?st1))
           = navigation_events st @ [SEARCH_ROOT updatedQuery, SEARCH_ROOT u2]"
  proof (intro allI impI)
    fix i :: search_query_item and q2 qs2 u2
    assume h: "searchItemType i \<noteq> ITEM_TYPE_CONTEXTUAL_SUGGESTION (CONST_SEARCH env)
           \<and> searchQuery i = Some q2 \<and> q2 \<noteq> []
           \<and> getQueryWithSubstitutions env q2 (autocompleteSubstitutions st) = Inr qs2
           \<and> getQueryWithUpdatedValues env qs2 = Inr (Some u2) \<and> u2 \<noteq> []"
    have k: "searchItemType i \<noteq> ITEM_TYPE_CONTEXTUAL_SUGGESTION (CONST_SEARCH env)"
      "searchItemType i \<noteq> ITEM_TYPE_AUTOCOMPLETE_SUGGESTION (CONST_SEARCH env)
       \<or> textInputValue ?st1 = []"
      "searchQuery i = Some q2" "q2 \<noteq> []"
      "getQueryWithSubstitutions env q2 (autocompleteSubstitutions ?st1) = Inr qs2"
      "getQueryWithUpdatedValues env qs2 = Inr (Some u2)" "u2 \<noteq> []"
      using h by (simp_all add: m b(1))
    have "navigation_events (snd (onListItemPress env ?st1 (SearchQueryItem i) ?st1))
            = navigation_events ?st1 @ [SEARCH_ROOT u2]"
      by (rule onListItemPress_search(2) [OF k])
    then show "navigation_events (snd (dispatch (onSubmit env (Some (SearchQueryItem i))) ?st1))
           = navigation_events st @ [SEARCH_ROOT updatedQuery, SEARCH_ROOT u2]"
      by (simp add: dispatch_def [of _ ?st1] onSubmit_def b(3))
  qed
  show ?thesis
    using a b c d e f g by blast
qed

theorem onSubmit_twice_witness:
  "navigation_events
     (snd (dispatch (onSubmit spec_env None) (snd (dispatch (onSubmit spec_env None) scenarioA_accepted))))
     = [SEARCH_ROOT (''type:chat room_42'' @ [CHR 0xA0])]
   \<and> dispatch (onSubmit spec_env None) (snd (dispatch (onSubmit spec_env None) scenarioA_accepted))
     = (None, snd (dispatch (onSubmit spec_env None) scenarioA_accepted))
   \<and> navigation_events
       (snd (onSubmit spec_env None scenarioA_accepted
               (snd (dispatch (onSubmit spec_env None) scenarioA_accepted))))
     = [SEARCH_ROOT (''type:chat room_42'' @ [CHR 0xA0]),
        SEARCH_ROOT (''type:chat room_42'' @ [CHR 0xA0])]
   \<and> navigation_events
       (snd (dispatch
               (onSubmit spec_env
                  (Some (SearchQueryItem
                     \<lparr>searchQuery = Some ''type:chat'', searchItemType = ''search'', roomType = None,
                      autocompleteID = None, mapKey = None, policyID = None\<rparr>)))
               (snd (dispatch (onSubmit spec_env None) scenarioA_accepted))))
     = [SEARCH_ROOT (''type:chat room_42'' @ [CHR 0xA0]), SEARCH_ROOT ''type:chat'']
   \<and> navigation_events
       (snd (dispatch
               (onSubmit (spec_env\<lparr>getQueryWithUpdatedValues :=
                            (\<lambda>q. Inr (Some (if q = [] then ''type:expense'' else q)))\<rparr>) None)
               (snd (dispatch
                       (onSubmit (spec_env\<lparr>getQueryWithUpdatedValues :=
                            (\<lambda>q. Inr (Some (if q = [] then ''type:expense'' else q)))\<rparr>) None)
                       scenarioA_accepted))))
     = [SEARCH_ROOT (''type:chat room_42'' @ [CHR 0xA0]), SEARCH_ROOT ''type:expense'']"
proof -
  let ?q = "''type:chat room_42'' @ [CHR 0xA0]"
  let ?i = "\<lparr>searchQuery = Some ''type:chat'', searchItemType = ''search'', roomType = None,
             autocompleteID = None, mapKey = None, policyID = None\<rparr>"
  let ?fill = "spec_env\<lparr>getQueryWithUpdatedValues :=
                 (\<lambda>q. Inr (Some (if q = [] then ''type:expense'' else q)))\<rparr>"
  have h1: "getQueryWithSubstitutions spec_env (textInputValue scenarioA_accepted)
              (autocompleteSubstitutions scenarioA_accepted) = Inr ?q"
    by (simp add: scenarioA_accepted_def initial_state_def spec_env_simps)
  have h2: "getQueryWithUpdatedValues spec_env ?q = Inr (Some ?q)"
    by (simp add: spec_env_simps js_trim_def js_whitespace_def)
  have h3: "?q \<noteq> []"
    by simp
  have h4: "emptyQueryUnusable spec_env (autocompleteSubstitutions scenarioA_accepted)"
    by (simp add: scenarioA_accepted_def initial_state_def spec_env_simps emptyQueryUnusable_def
          truthy_def of_str_def js_trim_def)
  have n0: "navigation_events scenarioA_accepted = []"
    by (simp add: scenarioA_accepted_def initial_state_def navigation_events_def)
  have i: "searchItemType ?i \<noteq> ITEM_TYPE_CONTEXTUAL_SUGGESTION (CONST_SEARCH spec_env)
           \<and> searchQuery ?i = Some ''type:chat'' \<and> ''type:chat'' \<noteq> []
           \<and> getQueryWithSubstitutions spec_env ''type:chat''
                 (autocompleteSubstitutions scenarioA_accepted) = Inr ''type:chat''
           \<and> getQueryWithUpdatedValues spec_env ''type:chat'' = Inr (Some ''type:chat'')
           \<and> ''type:chat'' \<noteq> []"
    by (simp add: scenarioA_accepted_def initial_state_def spec_env_simps js_trim_def js_whitespace_def)
  have f1: "getQueryWithSubstitutions ?fill (textInputValue scenarioA_accepted)
              (autocompleteSubstitutions scenarioA_accepted) = Inr ?q"
    by (simp add: scenarioA_accepted_def initial_state_def spec_env_simps)
  have f2: "getQueryWithUpdatedValues ?fill ?q = Inr (Some ?q)"
    by simp
  have f5: "getQueryWithSubstitutions ?fill [] (autocompleteSubstitutions scenarioA_accepted) = Inr []
            \<and> getQueryWithUpdatedValues ?fill [] = Inr (Some ''type:expense'') \<and> ''type:expense'' \<noteq> []"
    by (simp add: scenarioA_accepted_def initial_state_def spec_env_simps)
  note c = onSubmit_twice [OF h1 h2 h3]
  note d = onSubmit_twice [OF f1 f2 h3]
  have a1: "navigation_events
     (snd (dispatch (onSubmit spec_env None) (snd (dispatch (onSubmit spec_env None) scenarioA_accepted))))
     = [SEARCH_ROOT ?q]"
    and a2: "dispatch (onSubmit spec_env None) (snd (dispatch (onSubmit spec_env None) scenarioA_accepted))
     = (None, snd (dispatch (onSubmit spec_env None) scenarioA_accepted))"
    and a3: "navigation_events
       (snd (onSubmit spec_env None scenarioA_accepted
               (snd (dispatch (onSubmit spec_env None) scenarioA_accepted))))
     = [SEARCH_ROOT ?q, SEARCH_ROOT ?q]"
    using c h4 unfolding n0 append_Nil by blast+
  have a4: "navigation_events
       (snd (dispatch (onSubmit spec_env (Some (SearchQueryItem ?i)))
               (snd (dispatch (onSubmit spec_env None) scenarioA_accepted))))
     = [SEARCH_ROOT ?q, SEARCH_ROOT ''type:chat'']"
    using c i unfolding n0 append_Nil by blast
  have a5: "navigation_events
       (snd (dispatch (onSubmit ?fill None) (snd (dispatch (onSubmit ?fill None) scenarioA_accepted))))
     = [SEARCH_ROOT ?q, SEARCH_ROOT ''type:expense'']"
    using d f5 unfolding n0 append_Nil by blast
  show ?thesis
    using a1 a2 a3 a4 a5 by blast
qed

subsection \<open>SearchRouter: the selection\<close>

text \<open>
  C6, as the spec states it, fails. \<open>setSelection\<close> is the setter of \<open>useState\<close>: it stores
  the range (5, 5) over an empty text as it is. And a keystroke does not touch the
  selection: after scenario A the selection is (22, 22), and replacing the text by the
  nine characters \<open>type:chat\<close> leaves it there.
\<close>

theorem setSelection_not_clamped:
  "textInputValue initial_state = []
   \<and> selection (setSelection \<lparr>sel_start = 5, sel_end = 5\<rparr> initial_state)
       = \<lparr>sel_start = 5, sel_end = 5\<rparr>
   \<and> \<not> selection_in_bounds (setSelection \<lparr>sel_start = 5, sel_end = 5\<rparr> initial_state)
   \<and> selection_in_bounds scenarioA_accepted
   \<and> textInputValue
        (snd (dispatch (\<lambda>cl. onSearchQueryChange spec_env cl ''type:chat'' False) scenarioA_accepted))
       = ''type:chat''
   \<and> selection
        (snd (dispatch (\<lambda>cl. onSearchQueryChange spec_env cl ''type:chat'' False) scenarioA_accepted))
       = \<lparr>sel_start = 22, sel_end = 22\<rparr>
   \<and> \<not> selection_in_bounds
        (snd (dispatch (\<lambda>cl. onSearchQueryChange spec_env cl ''type:chat'' False) scenarioA_accepted))"
proof -
  have h: "lineBreaksToSpaces spec_env ''type:chat'' True = Inr ''type:chat''"
    "getAutocompleteQueryWithComma spec_env (textInputValue scenarioA_accepted) ''type:chat''
       = Inr ''type:chat''"
    "getUpdatedSubstitutionsMap spec_env ''type:chat'' (autocompleteSubstitutions scenarioA_accepted)
       = Inr [(''in:#general'', ''room_42'')]"
    by (simp_all add: spec_env_simps scenarioA_accepted_def initial_state_def)
  have s: "selection scenarioA_accepted = \<lparr>sel_start = 22, sel_end = 22\<rparr>"
    "length (textInputValue scenarioA_accepted) = 22"
    by (simp_all add: scenarioA_accepted_def initial_state_def)
  show ?thesis
    using onSearchQueryChange_ok(2) [OF h, of False scenarioA_accepted] s
    by (simp add: dispatch_def selection_in_bounds_def onSearchQueryChange_selection frame)
       (simp add: initial_state_def)
qed

text \<open>
  C6, amended. \<open>setSelection\<close> stores the range it is given, without clamping. A
  programmatic text replacement (\<open>setTextAndUpdateSelection\<close>) sets start and end to the
  length of the new text, so that 0 \<open>\<le>\<close> start \<open>\<le>\<close> end \<open>\<le>\<close> length(text) holds after it. A keystroke
  (\<open>onSearchQueryChange\<close>) leaves the selection as it was, so the invariant survives it
  when the old end still lies within the new text. Accepting a suggestion sets start and
  end to the length of the text handed to \<open>onSearchQueryChange\<close>; the invariant holds
  after it exactly when the normalised text is at least that long.
\<close>

theorem selection_after_updates:
  "selection (setSelection r st) = r
   \<and> textInputValue (setTextAndUpdateSelection text st) = text
   \<and> selection (setTextAndUpdateSelection text st) = \<lparr>sel_start = length text, sel_end = length text\<rparr>
   \<and> selection_in_bounds (setTextAndUpdateSelection text st)
   \<and> selection (snd (onSearchQueryChange env cl userQuery autoScrollToRight st)) = selection st
   \<and> (selection_in_bounds st
        \<and> sel_end (selection st)
            \<le> length (textInputValue (snd (onSearchQueryChange env cl userQuery autoScrollToRight st)))
       \<longrightarrow> selection_in_bounds (snd (onSearchQueryChange env cl userQuery autoScrollToRight st)))
   \<and> (lineBreaksToSpaces env new True = Inr single
        \<and> getAutocompleteQueryWithComma env (textInputValue cl) single = Inr updated
        \<and> getUpdatedSubstitutionsMap env single (autocompleteSubstitutions cl) = Inr m'
       \<longrightarrow> selection (snd (accept_suggestion env cl aid t0 new key ident handled st))
             = \<lparr>sel_start = length new, sel_end = length new\<rparr>
           \<and> (selection_in_bounds (snd (accept_suggestion env cl aid t0 new key ident handled st))
                \<longleftrightarrow> length new \<le> length updated))"
proof -
  have a: "selection (setSelection r st) = r"
    by (simp add: frame)
  have b: "textInputValue (setTextAndUpdateSelection text st) = text"
    "selection (setTextAndUpdateSelection text st) = \<lparr>sel_start = length text, sel_end = length text\<rparr>"
    by (simp_all add: setTextAndUpdateSelection_def setSelection_def setTextInputValue_def)
  have c: "selection_in_bounds (setTextAndUpdateSelection text st)"
    by (simp add: selection_in_bounds_def b)
  have d: "selection (snd (onSearchQueryChange env cl userQuery autoScrollToRight st)) = selection st"
    by (rule onSearchQueryChange_selection)
  have e: "selection_in_bounds st
        \<and> sel_end (selection st)
            \<le> length (textInputValue (snd (onSearchQueryChange env cl userQuery autoScrollToRight st)))
       \<longrightarrow> selection_in_bounds (snd (onSearchQueryChange env cl userQuery autoScrollToRight st))"
    by (simp add: selection_in_bounds_def d)
  have f: "lineBreaksToSpaces env new True = Inr single
        \<and> getAutocompleteQueryWithComma env (textInputValue cl) single = Inr updated
        \<and> getUpdatedSubstitutionsMap env single (autocompleteSubstitutions cl) = Inr m'
       \<longrightarrow> selection (snd (accept_suggestion env cl aid t0 new key ident handled st))
             = \<lparr>sel_start = length new, sel_end = length new\<rparr>
           \<and> (selection_in_bounds (snd (accept_suggestion env cl aid t0 new key ident handled st))
                \<longleftrightarrow> length new \<le> length updated)"
    by (auto simp: selection_in_bounds_def accept_suggestion_ok(2,4))
  show ?thesis
    using a b c d e f by blast
qed

theorem selection_after_updates_witness:
  "selection_in_bounds (setTextAndUpdateSelection ''type:chat'' scenarioA_accepted)
   \<and> selection (snd (onSearchQueryChange spec_env scenarioA_accepted ''type:chat'' False scenarioA_accepted))
       = \<lparr>sel_start = 22, sel_end = 22\<rparr>
   \<and> selection_in_bounds
        (snd (onSearchQueryChange spec_env scenarioA_accepted
                (''type:chat in:#general'' @ [CHR 0xA0, CHR ''x'']) False scenarioA_accepted))
   \<and> selection_in_bounds
        (snd (accept_suggestion spec_env scenarioA_state ''a'' 0 (''type:chat in:#general'' @ [CHR 0xA0])
                (Some ''in:#general'') (Some ''room_42'') (\<lambda>t. OnRouterClose) scenarioA_state))"
proof -
  let ?q = "''type:chat in:#general'' @ [CHR 0xA0, CHR ''x'']"
  let ?n = "''type:chat in:#general'' @ [CHR 0xA0]"
  have h: "lineBreaksToSpaces spec_env ?q True = Inr ?q"
    "getAutocompleteQueryWithComma spec_env (textInputValue scenarioA_accepted) ?q = Inr ?q"
    "getUpdatedSubstitutionsMap spec_env ?q (autocompleteSubstitutions scenarioA_accepted)
       = Inr [(''in:#general'', ''room_42'')]"
    by (simp_all add: spec_env_simps scenarioA_accepted_def initial_state_def)
  have g: "lineBreaksToSpaces spec_env ?n True = Inr ?n
        \<and> getAutocompleteQueryWithComma spec_env (textInputValue scenarioA_state) ?n = Inr ?n
        \<and> getUpdatedSubstitutionsMap spec_env ?n (autocompleteSubstitutions scenarioA_state) = Inr []"
    by (simp add: spec_env_simps scenarioA_state_def initial_state_def)
  have s: "selection scenarioA_accepted = \<lparr>sel_start = 22, sel_end = 22\<rparr>"
    "selection_in_bounds scenarioA_accepted"
    by (simp_all add: scenarioA_accepted_def initial_state_def selection_in_bounds_def)
  have l: "sel_end (selection scenarioA_accepted)
      \<le> length (textInputValue (snd (onSearchQueryChange spec_env scenarioA_accepted ?q False
                                       scenarioA_accepted)))"
    using onSearchQueryChange_ok(2) [OF h, of False scenarioA_accepted] s(1) by simp
  show ?thesis
    using selection_after_updates
            [of _ scenarioA_accepted "''type:chat''" spec_env scenarioA_accepted "''type:chat''" False]
          selection_after_updates
            [of _ scenarioA_accepted _ spec_env scenarioA_accepted ?q False]
          selection_after_updates
            [of _ scenarioA_state _ spec_env scenarioA_state _ _ ?n ?n ?n "[]" "''a''" 0
                "Some ''in:#general''" "Some ''room_42''" "\<lambda>t. OnRouterClose"]
          s l g
    by simp
qed

subsection \<open>SearchRouter: merging a substitution\<close>

text \<open>
  C7, as the spec states it, fails: merging the same key and identifier a second time
  gives a map that is structurally equal to the previous one, and
  \<open>setAutocompleteSubstitutions\<close> is called all the same.
\<close>

theorem merge_twice_sets_state_twice:
  "autocompleteSubstitutions
     (updateAutocompleteSubstitutions initial_state scenarioA_item initial_state)
     = [(''in:#general'', ''room_42'')]
   \<and> substitutionsSetCalls
       (updateAutocompleteSubstitutions initial_state scenarioA_item initial_state) = 1
   \<and> deepEqual
       (autocompleteSubstitutions
          (updateAutocompleteSubstitutions
             (updateAutocompleteSubstitutions initial_state scenarioA_item initial_state)
             scenarioA_item
             (updateAutocompleteSubstitutions initial_state scenarioA_item initial_state)))
       (autocompleteSubstitutions
          (updateAutocompleteSubstitutions initial_state scenarioA_item initial_state))
   \<and> substitutionsSetCalls
       (updateAutocompleteSubstitutions
          (updateAutocompleteSubstitutions initial_state scenarioA_item initial_state)
          scenarioA_item
          (updateAutocompleteSubstitutions initial_state scenarioA_item initial_state)) = 2"
  by (simp add: updateAutocompleteSubstitutions_def scenarioA_item_def initial_state_def
        setAutocompleteSubstitutions_def deepEqual_def)

text \<open>
  C7, amended. A merge builds the new map \<open>{...old, [key]: identifier}\<close> from the old one,
  which it does not change, and merging the same pair twice gives a structurally equal
  map. Every merge with a non-empty key and identifier (\<open>updateAutocompleteSubstitutions\<close>
  and the merges of \<open>onListItemPress\<close>) calls \<open>setAutocompleteSubstitutions\<close>, also when the
  merged map equals the previous one. Only the keystroke path (\<open>onSearchQueryChange\<close>)
  compares with \<open>deepEqual\<close> and skips the setter when the recomputed map is structurally
  equal to the previous one.
\<close>

theorem merge_always_sets_state:
  "(truthy (autocompleteID item) \<and> truthy (mapKey item) \<longrightarrow>
      autocompleteSubstitutions (updateAutocompleteSubstitutions cl item st)
        = AList.update (or_empty (mapKey item)) (or_empty (autocompleteID item))
            (autocompleteSubstitutions cl)
      \<and> substitutionsSetCalls (updateAutocompleteSubstitutions cl item st)
        = Suc (substitutionsSetCalls st))
   \<and> (\<not> (truthy (autocompleteID item) \<and> truthy (mapKey item)) \<longrightarrow>
      updateAutocompleteSubstitutions cl item st = st)
   \<and> (truthy key \<and> truthy ident \<longrightarrow>
      autocompleteSubstitutions (merge_substitution cl key ident st)
        = AList.update (or_empty key) (or_empty ident) (autocompleteSubstitutions cl)
      \<and> substitutionsSetCalls (merge_substitution cl key ident st) = Suc (substitutionsSetCalls st))
   \<and> map_of (AList.update k v m) = (map_of m)(k \<mapsto> v)
   \<and> AList.update k v (AList.update k v m) = AList.update k v m
   \<and> deepEqual (AList.update k v (AList.update k v m)) (AList.update k v m)
   \<and> (lineBreaksToSpaces env userQuery True = Inr single
       \<and> getAutocompleteQueryWithComma env (textInputValue cl) single = Inr updated
       \<and> getUpdatedSubstitutionsMap env single (autocompleteSubstitutions cl) = Inr m'
      \<longrightarrow> substitutionsSetCalls (snd (onSearchQueryChange env cl userQuery a st))
            = (if deepEqual (autocompleteSubstitutions cl) m' then substitutionsSetCalls st
               else Suc (substitutionsSetCalls st))
          \<and> autocompleteSubstitutions (snd (onSearchQueryChange env cl userQuery a st))
            = (if deepEqual (autocompleteSubstitutions cl) m' then autocompleteSubstitutions st
               else m'))"
proof -
  have a: "truthy (autocompleteID item) \<and> truthy (mapKey item) \<longrightarrow>
      autocompleteSubstitutions (updateAutocompleteSubstitutions cl item st)
        = AList.update (or_empty (mapKey item)) (or_empty (autocompleteID item))
            (autocompleteSubstitutions cl)
      \<and> substitutionsSetCalls (updateAutocompleteSubstitutions cl item st)
        = Suc (substitutionsSetCalls st)"
    by (simp add: updateAutocompleteSubstitutions_cases frame)
  have b: "\<not> (truthy (autocompleteID item) \<and> truthy (mapKey item)) \<longrightarrow>
      updateAutocompleteSubstitutions cl item st = st"
    by (simp add: updateAutocompleteSubstitutions_cases)
  have c: "truthy key \<and> truthy ident \<longrightarrow>
      autocompleteSubstitutions (merge_substitution cl key ident st)
        = AList.update (or_empty key) (or_empty ident) (autocompleteSubstitutions cl)
      \<and> substitutionsSetCalls (merge_substitution cl key ident st) = Suc (substitutionsSetCalls st)"
    by (simp add: merge_substitution_subs)
  have d: "AList.update k v (AList.update k v m) = AList.update k v m"
    by (rule update_twice)
  have m: "map_of (AList.update k v m) = (map_of m)(k \<mapsto> v)"
    by (rule update_conv')
  have e: "deepEqual (AList.update k v (AList.update k v m)) (AList.update k v m)"
    by (simp only: d deepEqual_refl)
  have f: "lineBreaksToSpaces env userQuery True = Inr single
       \<and> getAutocompleteQueryWithComma env (textInputValue cl) single = Inr updated
       \<and> getUpdatedSubstitutionsMap env single (autocompleteSubstitutions cl) = Inr m'
      \<longrightarrow> substitutionsSetCalls (snd (onSearchQueryChange env cl userQuery a st))
            = (if deepEqual (autocompleteSubstitutions cl) m' then substitutionsSetCalls st
               else Suc (substitutionsSetCalls st))
          \<and> autocompleteSubstitutions (snd (onSearchQueryChange env cl userQuery a st))
            = (if deepEqual (autocompleteSubstitutions cl) m' then autocompleteSubstitutions st
               else m')"
    using onSearchQueryChange_ok(4,5) by blast
  show ?thesis
    using a b c d e f m by blast
qed

theorem merge_always_sets_state_witness:
  "substitutionsSetCalls (updateAutocompleteSubstitutions scenarioA_accepted scenarioA_item scenarioA_accepted)
     = Suc (substitutionsSetCalls scenarioA_accepted)
   \<and> autocompleteSubstitutions
       (updateAutocompleteSubstitutions scenarioA_accepted scenarioA_item scenarioA_accepted)
     = autocompleteSubstitutions scenarioA_accepted
   \<and> substitutionsSetCalls
       (snd (onSearchQueryChange spec_env scenarioA_accepted ''type:chat'' False scenarioA_accepted))
     = substitutionsSetCalls scenarioA_accepted"
proof -
  have i: "truthy (autocompleteID scenarioA_item) \<and> truthy (mapKey scenarioA_item)"
    by (simp add: scenarioA_item_def truthy_def of_str_def)
  have u: "AList.update (or_empty (mapKey scenarioA_item)) (or_empty (autocompleteID scenarioA_item))
             (autocompleteSubstitutions scenarioA_accepted) = autocompleteSubstitutions scenarioA_accepted"
    by (simp add: scenarioA_item_def scenarioA_accepted_def initial_state_def or_empty_def)
  have h: "lineBreaksToSpaces spec_env ''type:chat'' True = Inr ''type:chat''
     \<and> getAutocompleteQueryWithComma spec_env (textInputValue scenarioA_accepted) ''type:chat''
       = Inr ''type:chat''
     \<and> getUpdatedSubstitutionsMap spec_env ''type:chat'' (autocompleteSubstitutions scenarioA_accepted)
       = Inr (autocompleteSubstitutions scenarioA_accepted)"
    by (simp add: spec_env_simps)
  have e: "deepEqual (autocompleteSubstitutions scenarioA_accepted)
             (autocompleteSubstitutions scenarioA_accepted)"
    by (rule deepEqual_refl)
  show ?thesis
    using merge_always_sets_state
            [of scenarioA_item scenarioA_accepted scenarioA_accepted None None _ _ _
                spec_env "''type:chat''" "''type:chat''" "''type:chat''"
                "autocompleteSubstitutions scenarioA_accepted" False]
          i u h e
    by simp
qed

subsection \<open>SearchRouter: exceptions\<close>

text \<open>
  C8, as the spec states it, fails. If scheduling the focus throws while a suggestion is
  accepted, \<open>setFocusAndScrollToRight\<close> logs the action identifier, the error and a
  timestamp, with neither elapsed time nor input length, and does not throw again:
  \<open>onListItemPress\<close> completes. And when \<open>onListItemPress\<close> does rethrow, its log entry
  has no input length.
\<close>

theorem focus_failure_is_swallowed:
  "fst (dispatch (\<lambda>cl. onListItemPress (spec_env\<lparr>runAfterInteractions := Some ''scheduler failed''\<rparr>)
                        cl (SearchQueryItem scenarioA_item)) scenarioA_state) = None
   \<and> effects (snd (dispatch (\<lambda>cl. onListItemPress (spec_env\<lparr>runAfterInteractions := Some ''scheduler failed''\<rparr>)
                        cl (SearchQueryItem scenarioA_item)) scenarioA_state)) ! 4
       = LogAlert ''[CMD_K_FREEZE] Focus and scroll failed''
           [(''actionId'', Str ''list_item_press_0_k3x9q2a''),
            (''error'', Str ''scheduler failed''),
            (''timestamp'', Num 5)]
   \<and> fst (dispatch (\<lambda>cl. onListItemPress (spec_env\<lparr>sanitizeSearchValue := (\<lambda>v. Inl ''bad value'')\<rparr>)
                        cl (SearchQueryItem scenarioA_item)) scenarioA_state) = Some ''bad value''
   \<and> last (effects (snd (dispatch (\<lambda>cl. onListItemPress
                                         (spec_env\<lparr>sanitizeSearchValue := (\<lambda>v. Inl ''bad value'')\<rparr>)
                        cl (SearchQueryItem scenarioA_item)) scenarioA_state)))
       = LogAlert ''[CMD_K_FREEZE] List item press failed''
           [(''actionId'', Str ''list_item_press_0_k3x9q2a''),
            (''error'', Str ''bad value''),
            (''duration'', Num 1),
            (''itemType'', Str ''SearchQueryItem''),
            (''searchItemType'', Str ''autocompleteSuggestion''),
            (''timestamp'', Num 2)]"
  by (simp add: router_defs scenarioA_item_def scenarioA_state_def initial_state_def spec_env_simps)

text \<open>
  C8, amended. An exception raised inside the \<open>try\<close> block of \<open>onSearchQueryChange\<close> is
  logged with the identifier of the action, the error, the elapsed time (the clock read
  in the \<open>catch\<close> minus the start time read when the action began), the input length and
  the timestamp, and is thrown again. An exception raised inside the \<open>try\<close> block of
  \<open>onListItemPress\<close> is logged with the identifier of the action, the error, the elapsed
  time, the item type, the search item type and the timestamp, without an input length,
  and is thrown again; the clock read in its \<open>catch\<close> is the third read of the action,
  or the sixth when the exception came through \<open>onSearchQueryChange\<close>. An exception raised
  by scheduling the focus in \<open>setFocusAndScrollToRight\<close> is logged with the identifier of
  the action, the error and the timestamp, and is not thrown again.
\<close>

theorem exceptions_logged_then_rethrown_or_swallowed:
  "fst (onSearchQueryChange env cl userQuery a st)
     = fst (onSearchQueryChange_try env cl aid t0 userQuery a st')
   \<and> (lineBreaksToSpaces env userQuery True = Inl e
        \<longrightarrow> fst (onSearchQueryChange env cl userQuery a st) = Some e)
   \<and> (fst (onSearchQueryChange env cl userQuery a st) = Some e \<longrightarrow>
        last (effects (snd (onSearchQueryChange env cl userQuery a st))) =
          LogAlert ''[CMD_K_FREEZE] Search query change failed''
            [(''actionId'',
                Str (''search_query_'' @ show_nat (dateNow env (dateNowCalls st)) @ ''_''
                     @ mathRandom env (mathRandomCalls st))),
             (''error'', Str e),
             (''duration'',
                Num (int (dateNow env (dateNowCalls st + 2)) - int (dateNow env (dateNowCalls st + 1)))),
             (''inputLength'', Num (int (length userQuery))),
             (''timestamp'', Num (int (dateNow env (dateNowCalls st + 2))))]
        \<and> dateNowCalls (snd (onSearchQueryChange env cl userQuery a st)) = dateNowCalls st + 3)
   \<and> fst (onListItemPress env cl item st) = fst (onListItemPress_try env cl aid t0 item st')
   \<and> (fst (onListItemPress env cl item st) = Some e \<longrightarrow>
        last (effects (snd (onListItemPress env cl item st))) =
          LogAlert ''[CMD_K_FREEZE] List item press failed''
            [(''actionId'',
                Str (''list_item_press_'' @ show_nat (dateNow env (dateNowCalls st)) @ ''_''
                     @ mathRandom env (mathRandomCalls st))),
             (''error'', Str e),
             (''duration'',
                Num (int (dateNow env (dateNowCalls (snd (onListItemPress env cl item st)) - 1))
                     - int (dateNow env (dateNowCalls st + 1)))),
             (''itemType'', itemType_field item),
             (''searchItemType'', searchItemType_field item),
             (''timestamp'',
                Num (int (dateNow env (dateNowCalls (snd (onListItemPress env cl item st)) - 1))))]
        \<and> (dateNowCalls (snd (onListItemPress env cl item st)) = dateNowCalls st + 3
           \<or> dateNowCalls (snd (onListItemPress env cl item st)) = dateNowCalls st + 6))
   \<and> fst (setFocusAndScrollToRight env aid st) = None
   \<and> (runAfterInteractions env = Some e \<longrightarrow>
        effects (snd (setFocusAndScrollToRight env aid st)) =
          effects st @ [LogAlert ''[CMD_K_FREEZE] Focus and scroll failed''
                          [(''actionId'', Str aid), (''error'', Str e),
                           (''timestamp'', Num (int (dateNow env (dateNowCalls st))))]])"
proof -
  have l: "lineBreaksToSpaces env userQuery True = Inl e
        \<longrightarrow> fst (onSearchQueryChange env cl userQuery a st) = Some e"
    by (simp add: onSearchQueryChange_throws)
  show ?thesis
    using onSearchQueryChange_fst [of env cl userQuery a st aid t0 st'] l
      onSearchQueryChange_alert_exact [of env cl userQuery a st e]
      onListItemPress_fst [of env cl item st aid t0 st']
      onListItemPress_alert_exact [of env cl item st e]
      setFocusAndScrollToRight_swallows [of env aid st]
      setFocusAndScrollToRight_alert_exact [of env e aid st]
    by blast
qed

theorem exceptions_logged_then_rethrown_or_swallowed_witness:
  "fst (onSearchQueryChange (spec_env\<lparr>lineBreaksToSpaces := (\<lambda>t b. Inl ''bad text'')\<rparr>)
          scenarioA_state ''abc'' False scenarioA_state) = Some ''bad text''
   \<and> last (effects (snd (onSearchQueryChange (spec_env\<lparr>lineBreaksToSpaces := (\<lambda>t b. Inl ''bad text'')\<rparr>)
                scenarioA_state ''abc'' False scenarioA_state))) =
         LogAlert ''[CMD_K_FREEZE] Search query change failed''
           [(''actionId'', Str ''search_query_0_k3x9q2a''), (''error'', Str ''bad text''),
            (''duration'', Num 1), (''inputLength'', Num 3), (''timestamp'', Num 2)]
   \<and> effects (snd (setFocusAndScrollToRight
                      (spec_env\<lparr>lineBreaksToSpaces := (\<lambda>t b. Inl ''bad text''),
                                runAfterInteractions := Some ''bad text''\<rparr>)
                      ''a1'' scenarioA_state)) =
         [LogAlert ''[CMD_K_FREEZE] Focus and scroll failed''
            [(''actionId'', Str ''a1''), (''error'', Str ''bad text''), (''timestamp'', Num 0)]]
   \<and> fst (onListItemPress (spec_env\<lparr>sanitizeSearchValue := (\<lambda>v. Inl ''bad value'')\<rparr>)
            scenarioA_state (SearchQueryItem scenarioA_item) scenarioA_state) = Some ''bad value''
   \<and> last (effects (snd (onListItemPress (spec_env\<lparr>sanitizeSearchValue := (\<lambda>v. Inl ''bad value'')\<rparr>)
            scenarioA_state (SearchQueryItem scenarioA_item) scenarioA_state))) =
         LogAlert ''[CMD_K_FREEZE] List item press failed''
           [(''actionId'', Str ''list_item_press_0_k3x9q2a''), (''error'', Str ''bad value''),
            (''duration'', Num 1), (''itemType'', Str ''SearchQueryItem''),
            (''searchItemType'', Str ''autocompleteSuggestion''), (''timestamp'', Num 2)]"
proof -
  let ?env = "spec_env\<lparr>lineBreaksToSpaces := (\<lambda>t b. Inl ''bad text'')\<rparr>"
  let ?env2 = "spec_env\<lparr>lineBreaksToSpaces := (\<lambda>t b. Inl ''bad text''),
                        runAfterInteractions := Some ''bad text''\<rparr>"
  let ?env3 = "spec_env\<lparr>sanitizeSearchValue := (\<lambda>v. Inl ''bad value'')\<rparr>"
  let ?p = "onListItemPress ?env3 scenarioA_state (SearchQueryItem scenarioA_item) scenarioA_state"
  have h: "lineBreaksToSpaces ?env ''abc'' True = Inl ''bad text''"
    by simp
  have h2: "runAfterInteractions ?env2 = Some ''bad text''"
    by simp
  have v: "dateNowCalls scenarioA_state = 0" "mathRandomCalls scenarioA_state = 0"
    "effects scenarioA_state = []"
    "dateNow ?env = (\<lambda>n. n)" "mathRandom ?env = (\<lambda>n. ''k3x9q2a'')" "dateNow ?env2 = (\<lambda>n. n)"
    "dateNow ?env3 = (\<lambda>n. n)" "mathRandom ?env3 = (\<lambda>n. ''k3x9q2a'')"
    "show_nat 0 = ''0''" "int (length ''abc'') = 3"
    "itemType_field (SearchQueryItem scenarioA_item) = Str ''SearchQueryItem''"
    "searchItemType_field (SearchQueryItem scenarioA_item) = Str ''autocompleteSuggestion''"
    by (simp_all add: scenarioA_state_def initial_state_def spec_env_def show_nat_def digit_char_def
          itemType_field_def searchItemType_field_def scenarioA_item_def)
  have t: "fst (onListItemPress_try ?env3 scenarioA_state [] 0 (SearchQueryItem scenarioA_item)
                  scenarioA_state) = Some ''bad value''"
    by (simp add: onListItemPress_try_def scenarioA_item_def scenarioA_state_def initial_state_def
          spec_env_simps)
  have n: "dateNowCalls (snd ?p) = 3"
    by (simp add: router_defs scenarioA_item_def scenarioA_state_def initial_state_def spec_env_simps)
  note logged = exceptions_logged_then_rethrown_or_swallowed
            [of ?env scenarioA_state "''abc''" False scenarioA_state _ _ _ "''bad text''"]
  note swallowed = exceptions_logged_then_rethrown_or_swallowed
            [of ?env2 _ _ _ scenarioA_state "''a1''" _ _ "''bad text''"]
  note pressed = exceptions_logged_then_rethrown_or_swallowed
            [of ?env3 scenarioA_state _ _ scenarioA_state "[]" 0 scenarioA_state "''bad value''"
                "SearchQueryItem scenarioA_item"]
  have a: "fst (onSearchQueryChange ?env scenarioA_state ''abc'' False scenarioA_state) = Some ''bad text''"
    using logged h by blast
  have b: "last (effects (snd (onSearchQueryChange ?env scenarioA_state ''abc'' False scenarioA_state))) =
         LogAlert ''[CMD_K_FREEZE] Search query change failed''
           [(''actionId'', Str ''search_query_0_k3x9q2a''), (''error'', Str ''bad text''),
            (''duration'', Num 1), (''inputLength'', Num 3), (''timestamp'', Num 2)]"
    using logged a by (simp add: v)
  have c: "effects (snd (setFocusAndScrollToRight ?env2 ''a1'' scenarioA_state)) =
         [LogAlert ''[CMD_K_FREEZE] Focus and scroll failed''
            [(''actionId'', Str ''a1''), (''error'', Str ''bad text''), (''timestamp'', Num 0)]]"
    using swallowed h2 by (simp add: v)
  have d: "fst ?p = Some ''bad value''"
    using pressed t by simp
  have e: "last (effects (snd ?p)) =
         LogAlert ''[CMD_K_FREEZE] List item press failed''
           [(''actionId'', Str ''list_item_press_0_k3x9q2a''), (''error'', Str ''bad value''),
            (''duration'', Num 1), (''itemType'', Str ''SearchQueryItem''),
            (''searchItemType'', Str ''autocompleteSuggestion''), (''timestamp'', Num 2)]"
    using pressed d by (simp add: v n)
  show ?thesis
    using a b c d e by blast
qed

end
